theory Spec2Isabelle
  imports Main
begin

section \<open>Python values the server handles\<close>

text \<open>
  The development embeds \<^verbatim>\<open>contrib/mcp/ara_mcp.py\<close>: the identifier resolver
  (\<^verbatim>\<open>validate_url_origin\<close>, \<^verbatim>\<open>parse_ara_url\<close>, \<^verbatim>\<open>extract_id\<close>), the batch fetch
  (\<^verbatim>\<open>ARAClient.batch_get\<close>) and the aggregation loops of the three wrapper handlers.

  A Python \<^verbatim>\<open>str\<close> is a sequence of code points; a \<^typ>\<open>string\<close> here is read as a
  sequence of code points below 256, and every character class below is the
  interpreter's own class restricted to that range. Strings with larger code points are
  outside the model.
\<close>

definition code :: "char \<Rightarrow> nat" where
  "code c = of_char c"

definition isspace_chr :: "char \<Rightarrow> bool" where
  \<comment> \<open>\<^verbatim>\<open>str.isspace\<close>: what \<^verbatim>\<open>str.strip()\<close> removes.\<close>
  "isspace_chr c =
     (let n = code c in (9 \<le> n \<and> n \<le> 13) \<or> (28 \<le> n \<and> n \<le> 32) \<or> n = 133 \<or> n = 160)"

definition isdecimal_chr :: "char \<Rightarrow> bool" where
  \<comment> \<open>\<^verbatim>\<open>0\<close> to \<^verbatim>\<open>9\<close>: the class \<^verbatim>\<open>\d\<close> of \<^verbatim>\<open>re\<close>, and the digits \<^verbatim>\<open>int()\<close> reads.\<close>
  "isdecimal_chr c = (let n = code c in 48 \<le> n \<and> n \<le> 57)"

definition isdigit_chr :: "char \<Rightarrow> bool" where
  \<comment> \<open>\<^verbatim>\<open>str.isdigit\<close>: the decimal digits and the superscripts two, three and one.\<close>
  "isdigit_chr c = (let n = code c in (48 \<le> n \<and> n \<le> 57) \<or> n = 178 \<or> n = 179 \<or> n = 185)"

definition isword_chr :: "char \<Rightarrow> bool" where
  \<comment> \<open>The class \<^verbatim>\<open>\w\<close> of \<^verbatim>\<open>re\<close> on \<^verbatim>\<open>str\<close>: alphanumeric or underscore.\<close>
  "isword_chr c =
     (let n = code c in
        (48 \<le> n \<and> n \<le> 57) \<or> (65 \<le> n \<and> n \<le> 90) \<or> n = 95 \<or> (97 \<le> n \<and> n \<le> 122)
        \<or> n = 170 \<or> n = 178 \<or> n = 179 \<or> n = 181 \<or> n = 185 \<or> n = 186
        \<or> (188 \<le> n \<and> n \<le> 190) \<or> (192 \<le> n \<and> n \<le> 214) \<or> (216 \<le> n \<and> n \<le> 246)
        \<or> 248 \<le> n)"

definition ascii_alpha_chr :: "char \<Rightarrow> bool" where
  \<comment> \<open>\<^verbatim>\<open>c.isascii() and c.isalpha()\<close>.\<close>
  "ascii_alpha_chr c = (let n = code c in (65 \<le> n \<and> n \<le> 90) \<or> (97 \<le> n \<and> n \<le> 122))"

definition lower_chr :: "char \<Rightarrow> char" where
  \<comment> \<open>\<^verbatim>\<open>str.lower\<close> on one character.\<close>
  "lower_chr c =
     (let n = code c in
        if (65 \<le> n \<and> n \<le> 90) \<or> (192 \<le> n \<and> n \<le> 214) \<or> (216 \<le> n \<and> n \<le> 222)
        then char_of (n + 32) else c)"

definition lower :: "string \<Rightarrow> string" where
  "lower s = map lower_chr s"

definition rstrip_chars :: "(char \<Rightarrow> bool) \<Rightarrow> string \<Rightarrow> string" where
  "rstrip_chars P s = rev (dropWhile P (rev s))"

definition strip :: "string \<Rightarrow> string" where
  \<comment> \<open>\<^verbatim>\<open>s.strip()\<close>\<close>
  "strip s = rstrip_chars isspace_chr (dropWhile isspace_chr s)"

definition rstrip_slash :: "string \<Rightarrow> string" where
  \<comment> \<open>\<^verbatim>\<open>s.rstrip("/")\<close>\<close>
  "rstrip_slash s = rstrip_chars (\<lambda>c. c = CHR ''/'') s"

definition isdigit :: "string \<Rightarrow> bool" where
  \<comment> \<open>\<^verbatim>\<open>s.isdigit()\<close>: false on the empty string.\<close>
  "isdigit s = (s \<noteq> [] \<and> list_all isdigit_chr s)"

definition digit_val :: "char \<Rightarrow> int" where
  "digit_val c = int (code c) - 48"

datatype error =
    NumericIdWithoutContext string
  | OriginMismatch string string
  | CouldNotParse string
  | InvalidIPv6URL
  | IntValueError string
  | KeyError int
  | TypeError string
  | AttributeError string
  | NotSubscriptable
  | ConnectionError
  | TimeoutError
  | PermissionError
  | NotFound
  | ServerError
  | HTTPStatusError

definition decimal_value :: "string \<Rightarrow> int" where
  "decimal_value s = foldl (\<lambda>a c. 10 * a + digit_val c) 0 s"

definition within_digit_limit :: "nat \<Rightarrow> string \<Rightarrow> bool" where
  \<comment> \<open>The interpreter's guard on integer string conversion: a string of more than 640
      digits is refused when a limit is set (not 0) and the string is longer than it.
      Leading zeros count.\<close>
  "within_digit_limit max_str_digits s =
     (\<not> (length s > 640 \<and> max_str_digits > 0 \<and> length s > max_str_digits))"

definition py_int :: "nat \<Rightarrow> string \<Rightarrow> error + int" where
  \<comment> \<open>\<^verbatim>\<open>int(s)\<close> on the strings that reach it here (no sign, blank or underscore),
      under the limit \<^verbatim>\<open>sys.get_int_max_str_digits()\<close>: the decimal value, and
      ValueError when a character is not a decimal digit or the digits exceed the limit.\<close>
  "py_int max_str_digits s =
     (if s \<noteq> [] \<and> list_all isdecimal_chr s \<and> within_digit_limit max_str_digits s
      then Inr (decimal_value s)
      else Inl (IntValueError s))"

fun py_str_nat :: "nat \<Rightarrow> string" where
  \<comment> \<open>\<^verbatim>\<open>str(n)\<close> for \<^verbatim>\<open>n >= 0\<close>.\<close>
  "py_str_nat n =
     (if n < 10 then [char_of (48 + n)] else py_str_nat (n div 10) @ [char_of (48 + n mod 10)])"

declare py_str_nat.simps [simp del]

section \<open>The standard library's URL parser\<close>

text \<open>
  \<^verbatim>\<open>urllib.parse.urlparse\<close> belongs to the interpreter, not to the repository; the
  functions below follow \<^verbatim>\<open>urlsplit\<close>, \<^verbatim>\<open>_splitnetloc\<close>, \<^verbatim>\<open>_splitparams\<close> and
  \<^verbatim>\<open>urlparse\<close> of CPython 3.12 statement by statement, with the default arguments the
  server passes. Two calls are not followed into the library: the validation of a
  bracketed host (it parses IP addresses) is the parameter \<open>bracketed_ok\<close>, and
  \<^verbatim>\<open>_checknetloc\<close> is left out because no code point below 256 normalises to one of
  the characters it rejects.
\<close>

record parse_result =
  scheme :: string
  netloc :: string
  path :: string
  params :: string
  query :: string
  fragment :: string

record environment =
  ARA_API_SERVER :: "string option"
  bracketed_ok :: "string \<Rightarrow> bool"
  int_max_str_digits :: nat

definition scheme_chr :: "char \<Rightarrow> bool" where
  \<comment> \<open>membership in \<^verbatim>\<open>scheme_chars\<close>\<close>
  "scheme_chr c =
     (let n = code c in
        (97 \<le> n \<and> n \<le> 122) \<or> (65 \<le> n \<and> n \<le> 90) \<or> (48 \<le> n \<and> n \<le> 57)
        \<or> c = CHR ''+'' \<or> c = CHR ''-'' \<or> c = CHR ''.'')"

definition c0_or_space :: "char \<Rightarrow> bool" where
  \<comment> \<open>membership in \<^verbatim>\<open>_WHATWG_C0_CONTROL_OR_SPACE\<close>\<close>
  "c0_or_space c = (code c \<le> 32)"

definition unsafe_chr :: "char \<Rightarrow> bool" where
  \<comment> \<open>membership in \<^verbatim>\<open>_UNSAFE_URL_BYTES_TO_REMOVE\<close>: tab, carriage return, newline\<close>
  "unsafe_chr c = (code c = 9 \<or> code c = 13 \<or> code c = 10)"

definition netloc_delim :: "char \<Rightarrow> bool" where
  "netloc_delim c = (c = CHR ''/'' \<or> c = CHR ''?'' \<or> c = CHR ''#'')"

definition uses_params :: "string list" where
  "uses_params = ['''', ''ftp'', ''hdl'', ''prospero'', ''http'', ''imap'',
                  ''https'', ''shttp'', ''rtsp'', ''rtsps'', ''rtspu'', ''sip'',
                  ''sips'', ''mms'', ''sftp'', ''tel'']"

definition split_first :: "char \<Rightarrow> string \<Rightarrow> string \<times> string" where
  \<comment> \<open>\<^verbatim>\<open>s.split(c, 1)\<close> when \<^verbatim>\<open>c in s\<close>: the text before and after the first \<open>c\<close>.\<close>
  "split_first c s = (takeWhile (\<lambda>x. x \<noteq> c) s, drop 1 (dropWhile (\<lambda>x. x \<noteq> c) s))"

definition split_scheme :: "string \<Rightarrow> string \<times> string" where
  \<comment> \<open>The scheme test of \<^verbatim>\<open>urlsplit\<close>: \<^verbatim>\<open>i = url.find(':')\<close>, \<^verbatim>\<open>i > 0\<close>, an ASCII
      letter first and only scheme characters before the colon.\<close>
  "split_scheme url =
     (let pre = takeWhile (\<lambda>x. x \<noteq> CHR '':'') url in
        if CHR '':'' \<in> set url \<and> pre \<noteq> [] \<and> ascii_alpha_chr (hd url) \<and> list_all scheme_chr pre
        then (lower pre, drop (length pre + 1) url)
        else ('''', url))"

definition splitnetloc :: "string \<Rightarrow> string \<times> string" where
  \<comment> \<open>\<^verbatim>\<open>_splitnetloc(url, 2)\<close>: up to the earliest of \<^verbatim>\<open>/ ? #\<close> after the two slashes.\<close>
  "splitnetloc url =
     (takeWhile (\<lambda>c. \<not> netloc_delim c) (drop 2 url),
      dropWhile (\<lambda>c. \<not> netloc_delim c) (drop 2 url))"

definition urlsplit :: "environment \<Rightarrow> string \<Rightarrow> error + parse_result" where
  "urlsplit env url0 =
     (let url1 = filter (\<lambda>c. \<not> unsafe_chr c) (dropWhile c0_or_space url0);
          (sch, url2) = split_scheme url1;
          (nl, url3) = (if take 2 url2 = ''//'' then splitnetloc url2 else ('''', url2));
          lb = CHR ''['' \<in> set nl;
          rb = CHR '']'' \<in> set nl
      in
        if lb \<noteq> rb then Inl InvalidIPv6URL
        else if lb \<and> rb \<and> \<not> bracketed_ok env nl then Inl InvalidIPv6URL
        else
          let (url4, frag) = (if CHR ''#'' \<in> set url3 then split_first CHR ''#'' url3 else (url3, ''''));
              (url5, qry) = (if CHR ''?'' \<in> set url4 then split_first CHR ''?'' url4 else (url4, ''''))
          in Inr \<lparr>scheme = sch, netloc = nl, path = url5, params = '''', query = qry, fragment = frag\<rparr>)"

definition splitparams :: "string \<Rightarrow> string \<times> string" where
  \<comment> \<open>\<^verbatim>\<open>_splitparams\<close>: cut at the first semicolon of the last path segment, if any.\<close>
  "splitparams url =
     (let seg = rev (takeWhile (\<lambda>c. c \<noteq> CHR ''/'') (rev url));
          pre = take (length url - length seg) url
      in if CHR '';'' \<in> set seg
         then (pre @ takeWhile (\<lambda>c. c \<noteq> CHR '';'') seg, drop 1 (dropWhile (\<lambda>c. c \<noteq> CHR '';'') seg))
         else (url, ''''))"

definition urlparse :: "environment \<Rightarrow> string \<Rightarrow> error + parse_result" where
  "urlparse env url =
     (case urlsplit env url of
        Inl e \<Rightarrow> Inl e
      | Inr r \<Rightarrow>
          if scheme r \<in> set uses_params \<and> CHR '';'' \<in> set (path r)
          then (let (p, ps) = splitparams (path r) in Inr (r\<lparr>path := p, params := ps\<rparr>))
          else Inr r)"

section \<open>Identifier resolver\<close>

definition get_web_base :: "environment \<Rightarrow> string" where
  \<comment> \<open>\<^verbatim>\<open>os.getenv("ARA_API_SERVER", "http://127.0.0.1:8000").rstrip("/")\<close>\<close>
  "get_web_base env =
     rstrip_slash (case ARA_API_SERVER env of None \<Rightarrow> ''http://127.0.0.1:8000'' | Some s \<Rightarrow> s)"

definition origin :: "parse_result \<Rightarrow> string" where
  \<comment> \<open>\<^verbatim>\<open>f"{parsed.scheme}://{parsed.netloc}"\<close>\<close>
  "origin p = scheme p @ ''://'' @ netloc p"

definition validate_url_origin :: "environment \<Rightarrow> string \<Rightarrow> error + unit" where
  "validate_url_origin env url =
     (case urlparse env url of
        Inl e \<Rightarrow> Inl e
      | Inr parsed \<Rightarrow>
          if scheme parsed = [] \<or> netloc parsed = [] then Inr ()
          else
            (case urlparse env (get_web_base env) of
               Inl e \<Rightarrow> Inl e
             | Inr configured \<Rightarrow>
                 if lower (origin parsed) \<noteq> lower (origin configured)
                 then Inl (OriginMismatch (origin parsed) (origin configured))
                 else Inr ()))"

definition match_ara_path :: "string \<Rightarrow> (string \<times> string) option" where
  \<comment> \<open>\<^verbatim>\<open>re.match(r"^/(\w+)/(\d+)(?:\.html)?$", path)\<close> and its two groups. No word
      character is a slash and no decimal digit is a dot, so each greedy run is the only
      one that can match; \<^verbatim>\<open>$\<close> also matches before one final newline.\<close>
  "match_ara_path p =
     (case p of
        [] \<Rightarrow> None
      | c # r \<Rightarrow>
          if c \<noteq> CHR ''/'' then None
          else
            (let w = takeWhile isword_chr r; r1 = dropWhile isword_chr r in
               if w = [] then None
               else
                 (case r1 of
                    [] \<Rightarrow> None
                  | c1 # r2 \<Rightarrow>
                      if c1 \<noteq> CHR ''/'' then None
                      else
                        (let d = takeWhile isdecimal_chr r2; r3 = dropWhile isdecimal_chr r2 in
                           if d = [] then None
                           else if r3 = [] \<or> r3 = ''.html'' \<or> r3 = [CHR 0x0A]
                                   \<or> r3 = ''.html'' @ [CHR 0x0A]
                           then Some (w, d) else None))))"

definition parse_ara_url :: "environment \<Rightarrow> string \<Rightarrow> error + (string \<times> int)" where
  "parse_ara_url env url_or_id0 =
     (let url_or_id = strip url_or_id0 in
        if isdigit url_or_id then Inl (NumericIdWithoutContext url_or_id)
        else
          (case validate_url_origin env url_or_id of
             Inl e \<Rightarrow> Inl e
           | Inr _ \<Rightarrow>
               (case urlparse env url_or_id of
                  Inl e \<Rightarrow> Inl e
                | Inr parsed \<Rightarrow>
                    (case match_ara_path (rstrip_slash (path parsed)) of
                       Some (resource, digits) \<Rightarrow>
                         (case py_int (int_max_str_digits env) digits of
                            Inl e \<Rightarrow> Inl e
                          | Inr resource_id \<Rightarrow> Inr (resource, resource_id))
                     | None \<Rightarrow> Inl (CouldNotParse url_or_id)))))"

datatype id_arg = IntArg int | StrArg string

definition extract_id :: "environment \<Rightarrow> id_arg \<Rightarrow> error + int" where
  "extract_id env a =
     (case a of
        IntArg n \<Rightarrow> Inr n
      | StrArg s \<Rightarrow>
          (let url_or_id = strip s in
             if isdigit url_or_id then py_int (int_max_str_digits env) url_or_id
             else
               (case parse_ara_url env url_or_id of
                  Inl e \<Rightarrow> Inl e
                | Inr (_, resource_id) \<Rightarrow> Inr resource_id)))"

section \<open>Records of the remote API\<close>

text \<open>
  A record fetched from the API is a JSON object, read by the handlers through
  \<^verbatim>\<open>dict.get\<close> and \<^verbatim>\<open>get_nested\<close>. JSON numbers are integers here (no handler below
  computes on a fractional field). Identifiers are integers, as the API defines them
  (\<^verbatim>\<open>pks: List[int]\<close>): an entry of a list page is typed by the two fields the handlers
  read from it, \<^verbatim>\<open>r["id"]\<close> and \<^verbatim>\<open>r.get("task")\<close>.
\<close>

datatype json = JNone | JBool bool | JInt int | JStr string | JList "json list"
  | JDict "(string \<times> json) list"

type_synonym dict = "(string \<times> json) list"

definition dict_get :: "dict \<Rightarrow> string \<Rightarrow> json \<Rightarrow> json" where
  \<comment> \<open>\<^verbatim>\<open>d.get(key, default)\<close>\<close>
  "dict_get d key dflt = (case map_of d key of None \<Rightarrow> dflt | Some v \<Rightarrow> v)"

definition get_nested :: "json \<Rightarrow> string \<Rightarrow> json \<Rightarrow> json" where
  "get_nested data key dflt =
     (case data of JDict d \<Rightarrow> dict_get d key dflt | _ \<Rightarrow> dflt)"

fun truthy :: "json \<Rightarrow> bool" where
  "truthy JNone = False"
| "truthy (JBool b) = b"
| "truthy (JInt n) = (n \<noteq> 0)"
| "truthy (JStr s) = (s \<noteq> [])"
| "truthy (JList xs) = (xs \<noteq> [])"
| "truthy (JDict d) = (d \<noteq> [])"

fun hashable :: "json \<Rightarrow> bool" where
  "hashable (JList xs) = False"
| "hashable (JDict d) = False"
| "hashable v = True"

fun py_key :: "json \<Rightarrow> json" where
  \<comment> \<open>Keys of a \<^verbatim>\<open>dict\<close> or \<^verbatim>\<open>set\<close> are compared with \<^verbatim>\<open>==\<close>, which identifies
      \<^verbatim>\<open>True\<close> with 1 and \<^verbatim>\<open>False\<close> with 0.\<close>
  "py_key (JBool b) = JInt (if b then 1 else 0)"
| "py_key v = v"

record result_item =
  item_id :: int
  item_task :: json

record page =
  count :: int
  results :: "result_item list"

datatype request = Get string int | ListReq string "(string \<times> json) list"

record api =
  api_get :: "string \<Rightarrow> int \<Rightarrow> error + dict"
  api_list :: "string \<Rightarrow> (string \<times> json) list \<Rightarrow> error + page"

section \<open>Resource client and batch fetch\<close>

text \<open>
  The remote server is a pair of functions: what a \<^verbatim>\<open>GET\<close> of one record and of one
  list page answers during one tool call (\<^verbatim>\<open>_request\<close> has already turned transport and
  HTTP failures into exceptions). The client threads the list of requests it has issued.
  \<^verbatim>\<open>asyncio.gather\<close> is modelled by its result, one outcome per awaitable in argument
  order; the interleaving of the requests is not modelled.
\<close>

definition ara_get :: "api \<Rightarrow> string \<Rightarrow> int \<Rightarrow> request list \<Rightarrow> (error + dict) \<times> request list" where
  \<comment> \<open>\<^verbatim>\<open>ARAClient.get\<close>\<close>
  "ara_get a resource pk log = (api_get a resource pk, log @ [Get resource pk])"

definition ara_list :: "api \<Rightarrow> string \<Rightarrow> (string \<times> json) list \<Rightarrow> request list
    \<Rightarrow> (error + page) \<times> request list" where
  \<comment> \<open>\<^verbatim>\<open>ARAClient.list\<close>\<close>
  "ara_list a resource ps log = (api_list a resource ps, log @ [ListReq resource ps])"

fun fetch_each :: "api \<Rightarrow> string \<Rightarrow> int list \<Rightarrow> request list
    \<Rightarrow> (error + int \<times> dict) list \<times> request list" where
  \<comment> \<open>\<^verbatim>\<open>gather(*[_fetch_one(pk) for pk in pks], return_exceptions=True)\<close>\<close>
  "fetch_each a resource [] log = ([], log)"
| "fetch_each a resource (pk # pks) log =
     (let (r, log1) = ara_get a resource pk log;
          (rs, log2) = fetch_each a resource pks log1
      in ((case r of Inl e \<Rightarrow> Inl e | Inr data \<Rightarrow> Inr (pk, data)) # rs, log2))"

fun collect :: "(error + int \<times> dict) list \<Rightarrow> (int \<rightharpoonup> dict) \<Rightarrow> (int \<rightharpoonup> dict)" where
  \<comment> \<open>the loop over \<^verbatim>\<open>results\<close>: an exception is logged and skipped\<close>
  "collect [] out = out"
| "collect (Inl e # rs) out = collect rs out"
| "collect (Inr (pk, data) # rs) out = collect rs (out(pk \<mapsto> data))"

definition batch_get :: "api \<Rightarrow> string \<Rightarrow> int list \<Rightarrow> request list
    \<Rightarrow> (int \<rightharpoonup> dict) \<times> request list" where
  "batch_get a resource pks log =
     (if pks = [] then (Map.empty, log)
      else (let (rs, log1) = fetch_each a resource pks log in (collect rs Map.empty, log1)))"

section \<open>Failure aggregation\<close>

text \<open>
  The handlers are modelled from the resolved \<^verbatim>\<open>pk\<close> on. A report is the structure its
  text lines are formatted from. Of \<^verbatim>\<open>handle_troubleshoot_playbook\<close> the model covers the
  queries, the batch fetches and the loop that builds one entry per failure; the
  formatting of the lines, the host information and the summary, which come after that
  loop, are left out. Of \<^verbatim>\<open>handle_troubleshoot_host\<close> the model covers the whole body:
  the report keeps the values its lines are formatted from (not the links to the web
  interface, which are computed from the identifiers), and the steps of the formatting
  that can raise (\<^verbatim>\<open>format_host_facts\<close>, \<^verbatim>\<open>status.upper()\<close>, \<^verbatim>\<open>msg[:150]\<close>) are branches
  of the model. A Python \<^verbatim>\<open>set\<close> is a duplicate-free list; its iteration order is not
  specified.
\<close>

record failure_entry =
  fe_index :: nat
  fe_result_id :: int
  fe_task_name :: json
  fe_task_action :: json
  fe_task_lineno :: json
  fe_task_file :: json
  fe_host_id :: json
  fe_host_name :: json

datatype playbook_report =
    NoFailuresFound bool
  | FailureReport nat "failure_entry list"

definition int_id :: "json \<Rightarrow> int option" where
  \<comment> \<open>\<^verbatim>\<open>if host_id: host_ids.add(host_id)\<close>, for an integer identifier\<close>
  "int_id v = (case v of JInt n \<Rightarrow> if n \<noteq> 0 then Some n else None | _ \<Rightarrow> None)"

definition host_id_of :: "dict \<Rightarrow> int option" where
  "host_id_of full_result =
     int_id (get_nested (dict_get full_result ''host'' (JDict [])) ''id'' JNone)"

definition file_ref_id :: "json \<Rightarrow> json" where
  \<comment> \<open>\<^verbatim>\<open>get_nested(task_file, "id", task_file if isinstance(task_file, int) else None)\<close>\<close>
  "file_ref_id task_file =
     get_nested task_file ''id''
       (case task_file of JInt n \<Rightarrow> task_file | JBool b \<Rightarrow> task_file | _ \<Rightarrow> JNone)"

definition file_id_of :: "dict \<Rightarrow> int option" where
  "file_id_of full_result =
     (let task_info = dict_get full_result ''task'' (JDict []);
          task_file = get_nested task_info ''file'' JNone;
          task_lineno = get_nested task_info ''lineno'' JNone
      in if truthy task_file \<and> truthy task_lineno then int_id (file_ref_id task_file) else None)"

definition dict_values :: "(int \<rightharpoonup> dict) \<Rightarrow> int list \<Rightarrow> dict list" where
  \<comment> \<open>\<^verbatim>\<open>full_results.values()\<close> of a mapping whose keys were fetched from \<open>pks\<close>\<close>
  "dict_values m pks = List.map_filter m (remdups pks)"

fun failure_entries :: "(int \<rightharpoonup> dict) \<Rightarrow> nat \<Rightarrow> result_item list \<Rightarrow> error + failure_entry list" where
  \<comment> \<open>\<^verbatim>\<open>for i, result in enumerate(failed_results, 1)\<close>; \<^verbatim>\<open>full_results[result_id]\<close>
      raises KeyError when the key is missing.\<close>
  "failure_entries full_results i [] = Inr []"
| "failure_entries full_results i (result # rest) =
     (case full_results (item_id result) of
        None \<Rightarrow> Inl (KeyError (item_id result))
      | Some full_result \<Rightarrow>
          (let task_info = dict_get full_result ''task'' (JDict []);
               host_info = dict_get full_result ''host'' (JDict []);
               entry = \<lparr>fe_index = i, fe_result_id = item_id result,
                        fe_task_name = get_nested task_info ''name'' (JStr ''Unknown''),
                        fe_task_action = get_nested task_info ''action'' (JStr ''unknown''),
                        fe_task_lineno = get_nested task_info ''lineno'' JNone,
                        fe_task_file = get_nested task_info ''file'' JNone,
                        fe_host_id = get_nested host_info ''id'' JNone,
                        fe_host_name = get_nested host_info ''name'' (JStr ''Unknown'')\<rparr>
           in case failure_entries full_results (Suc i) rest of
                Inl e \<Rightarrow> Inl e
              | Inr entries \<Rightarrow> Inr (entry # entries)))"

definition handle_troubleshoot_playbook :: "api \<Rightarrow> int \<Rightarrow> bool \<Rightarrow> request list
    \<Rightarrow> (error + playbook_report) \<times> request list" where
  "handle_troubleshoot_playbook a pk include_ignored log0 =
     (case ara_get a ''playbooks'' pk log0 of
        (Inl e, log1) \<Rightarrow> (Inl e, log1)
      | (Inr playbook, log1) \<Rightarrow>
          (let ps = [(''playbook'', JInt pk), (''status'', JStr ''failed''), (''limit'', JInt 100)]
                    @ (if \<not> include_ignored then [(''ignore_errors'', JBool False)] else [])
           in case ara_list a ''results'' ps log1 of
                (Inl e, log2) \<Rightarrow> (Inl e, log2)
              | (Inr results_data, log2) \<Rightarrow>
                  (let failed_results = results results_data in
                     if failed_results = [] then (Inr (NoFailuresFound (\<not> include_ignored)), log2)
                     else
                       (let result_ids = map item_id failed_results;
                            (full_results, log3) = batch_get a ''results'' result_ids log2;
                            vals = dict_values full_results result_ids;
                            host_ids = remdups (List.map_filter host_id_of vals);
                            file_ids = remdups (List.map_filter file_id_of vals);
                            (file_cache, log4) = batch_get a ''files'' file_ids log3;
                            (host_cache, log5) = batch_get a ''hosts'' host_ids log4
                        in case failure_entries full_results 1 failed_results of
                             Inl e \<Rightarrow> (Inl e, log5)
                           | Inr entries \<Rightarrow>
                               (Inr (FailureReport (length failed_results) entries), log5)))))"

record host_header =
  hh_name :: json
  hh_failed :: json
  hh_unreachable :: json
  hh_facts :: "string list"

datatype host_entry =
    CouldNotFetchDetails nat int
  | Details nat int string json json "json option"

datatype host_report =
    NoFailuresOrUnreachable host_header
  | HostFailures host_header nat "host_entry list" "nat option"

definition format_host_facts :: "(dict \<Rightarrow> error + string list) \<Rightarrow> json \<Rightarrow> error + string list" where
  \<comment> \<open>\<^verbatim>\<open>if not facts or not isinstance(facts, dict): return ["  Facts: Not available"]\<close>.
      The rest of the function formats floating-point facts (load, memory, disks) and is
      the first argument: the lines it gives for a non-empty dict of facts, or the
      exception it raises.\<close>
  "format_host_facts format_facts facts =
     (case facts of
        JDict d \<Rightarrow> if d = [] then Inr [''  Facts: Not available''] else format_facts d
      | _ \<Rightarrow> Inr [''  Facts: Not available''])"

definition gather :: "bool \<Rightarrow> error + 'a \<Rightarrow> error + 'b \<Rightarrow> error + 'a \<times> 'b" where
  \<comment> \<open>\<^verbatim>\<open>await asyncio.gather(x, y)\<close> of two awaitables that have both been started: the
      pair of their results, or the exception that is raised first. When both raise,
      which one comes first depends on the order in which the two complete, the first
      argument here.\<close>
  "gather second_completes_first x y =
     (case x of
        Inl e1 \<Rightarrow> (case y of
                    Inl e2 \<Rightarrow> Inl (if second_completes_first then e2 else e1)
                  | Inr v \<Rightarrow> Inl e1)
      | Inr v1 \<Rightarrow> (case y of Inl e2 \<Rightarrow> Inl e2 | Inr v2 \<Rightarrow> Inr (v1, v2)))"

definition error_msg :: "dict \<Rightarrow> error + json option" where
  \<comment> \<open>The message of an entry: \<^verbatim>\<open>content.get("msg", "")\<close> when \<^verbatim>\<open>content\<close> is a
      non-empty dict and the message is not empty. The line is formatted with
      \<^verbatim>\<open>msg[:150]\<close> and \<^verbatim>\<open>len(msg)\<close>, which raise unless the message is a string or a
      list.\<close>
  "error_msg full_result =
     (case dict_get full_result ''content'' (JDict []) of
        JDict c \<Rightarrow>
          if c = [] then Inr None
          else
            (let msg = dict_get c ''msg'' (JStr []) in
               if \<not> truthy msg then Inr None
               else (case msg of
                       JStr s \<Rightarrow> Inr (Some msg)
                     | JList xs \<Rightarrow> Inr (Some msg)
                     | _ \<Rightarrow> Inl NotSubscriptable))
      | _ \<Rightarrow> Inr None)"

fun host_entries :: "(int \<rightharpoonup> dict) \<Rightarrow> nat \<Rightarrow> result_item list \<Rightarrow> error + host_entry list" where
  \<comment> \<open>\<^verbatim>\<open>for i, result in enumerate(display_failures, 1)\<close>, with
      \<^verbatim>\<open>full_results.get(result["id"])\<close>; \<^verbatim>\<open>status.upper()\<close> raises AttributeError
      unless the status is a string. An entry keeps the status as fetched; its line
      shows it in upper case.\<close>
  "host_entries full_results i [] = Inr []"
| "host_entries full_results i (result # rest) =
     (case (case full_results (item_id result) of
              None \<Rightarrow> Inr (CouldNotFetchDetails i (item_id result))
            | Some full_result \<Rightarrow>
                if full_result = [] then Inr (CouldNotFetchDetails i (item_id result))
                else
                  (let task_info = dict_get full_result ''task'' (JDict []);
                       task_name = get_nested task_info ''name'' (JStr ''Unknown'');
                       task_action = get_nested task_info ''action'' (JStr ''unknown'')
                   in case dict_get full_result ''status'' (JStr ''unknown'') of
                        JStr status \<Rightarrow>
                          (case error_msg full_result of
                             Inl e \<Rightarrow> Inl e
                           | Inr msg \<Rightarrow>
                               Inr (Details i (item_id result) status task_name task_action msg))
                      | _ \<Rightarrow> Inl (AttributeError ''upper''))) of
        Inl e \<Rightarrow> Inl e
      | Inr entry \<Rightarrow>
          (case host_entries full_results (Suc i) rest of
             Inl e \<Rightarrow> Inl e
           | Inr entries \<Rightarrow> Inr (entry # entries)))"

definition handle_troubleshoot_host :: "(dict \<Rightarrow> error + string list) \<Rightarrow> bool \<Rightarrow> api \<Rightarrow> int
    \<Rightarrow> request list \<Rightarrow> (error + host_report) \<times> request list" where
  \<comment> \<open>The first two arguments are those of \<^verbatim>\<open>format_host_facts\<close> and \<^verbatim>\<open>gather\<close> above.
      The two list calls are the arguments of one \<^verbatim>\<open>gather\<close>: both are issued, in the
      order of the arguments, before either answer is read.\<close>
  "handle_troubleshoot_host format_facts second_completes_first a pk log0 =
     (case ara_get a ''hosts'' pk log0 of
        (Inl e, log1) \<Rightarrow> (Inl e, log1)
      | (Inr host, log1) \<Rightarrow>
          (case format_host_facts format_facts (dict_get host ''facts'' (JDict [])) of
             Inl e \<Rightarrow> (Inl e, log1)
           | Inr facts_lines \<Rightarrow>
               (let header = \<lparr>hh_name = dict_get host ''name'' (JStr ''Unknown''),
                              hh_failed = dict_get host ''failed'' (JInt 0),
                              hh_unreachable = dict_get host ''unreachable'' (JInt 0),
                              hh_facts = facts_lines\<rparr>;
                    (failed_data, log2) =
                      ara_list a ''results''
                        [(''host'', JInt pk), (''status'', JStr ''failed''), (''limit'', JInt 50)]
                        log1;
                    (unreachable_data, log3) =
                      ara_list a ''results''
                        [(''host'', JInt pk), (''status'', JStr ''unreachable''), (''limit'', JInt 50)]
                        log2
                in case gather second_completes_first failed_data unreachable_data of
                     Inl e \<Rightarrow> (Inl e, log3)
                   | Inr (f, u) \<Rightarrow>
                       (let all_failures = results f @ results u in
                          if all_failures = [] then (Inr (NoFailuresOrUnreachable header), log3)
                          else
                            (let display_failures = take 10 all_failures;
                                 (full_results, log4) =
                                   batch_get a ''results'' (map item_id display_failures) log3
                             in (case host_entries full_results 1 display_failures of
                                   Inl e \<Rightarrow> Inl e
                                 | Inr entries \<Rightarrow>
                                     Inr (HostFailures header (length all_failures) entries
                                            (if length all_failures > 10
                                             then Some (length all_failures - 10) else None)),
                                 log4))))))"

section \<open>Slowest tasks and time by module\<close>

text \<open>
  The last part of \<^verbatim>\<open>handle_analyze_performance\<close>: the target playbook's results, the
  batch fetch and the loop that fills \<^verbatim>\<open>task_times\<close> and the list of slowest tasks.
  Durations are floating-point numbers; the loop only adds them up, so the numbers are
  kept abstract: a type \<open>'f\<close> with the value \<^verbatim>\<open>0.0\<close>, the addition and
  \<^verbatim>\<open>parse_duration_seconds\<close> as parameters.
\<close>

record 'f float_ops =
  fzero :: 'f
  fadd :: "'f \<Rightarrow> 'f \<Rightarrow> 'f"
  parse_duration_seconds :: "json \<Rightarrow> 'f"

record 'f bucket =
  calls :: nat
  total :: 'f

record slow_entry =
  se_rank :: int
  se_duration :: json
  se_task_name :: json
  se_task_action :: json
  se_host_name :: json
  se_result_id :: int

record 'f perf_state =
  seen :: "(json \<times> json) list"
  shown :: int
  task_times :: "json \<rightharpoonup> 'f bucket"
  slowest :: "slow_entry list"

definition track_time :: "'f float_ops \<Rightarrow> json \<Rightarrow> 'f \<Rightarrow> (json \<rightharpoonup> 'f bucket) \<Rightarrow> (json \<rightharpoonup> 'f bucket)" where
  \<comment> \<open>\<^verbatim>\<open>task_times[task_action]["count"] += 1\<close> and \<^verbatim>\<open>["total"] += duration_sec\<close>,
      after the entry was created if it was missing\<close>
  "track_time ops task_action duration_sec tt =
     (let b = (case tt (py_key task_action) of
                 None \<Rightarrow> \<lparr>calls = 0, total = fzero ops\<rparr>
               | Some b \<Rightarrow> b)
      in tt(py_key task_action \<mapsto> \<lparr>calls = calls b + 1, total = fadd ops (total b) duration_sec\<rparr>))"

fun slowest_loop :: "'f float_ops \<Rightarrow> int \<Rightarrow> (int \<rightharpoonup> dict) \<Rightarrow> result_item list
    \<Rightarrow> 'f perf_state \<Rightarrow> error + 'f perf_state" where
  \<comment> \<open>\<^verbatim>\<open>for result in results\<close>\<close>
  "slowest_loop ops top_n all_full_results [] st = Inr st"
| "slowest_loop ops top_n all_full_results (result # rest) st =
     (case all_full_results (item_id result) of
        None \<Rightarrow> slowest_loop ops top_n all_full_results rest st
      | Some full_result \<Rightarrow>
          if full_result = [] then slowest_loop ops top_n all_full_results rest st
          else
            (let task_info = dict_get full_result ''task'' (JDict []);
                 host_info = dict_get full_result ''host'' (JDict []);
                 task_id = get_nested task_info ''id'' (item_task result);
                 task_name = get_nested task_info ''name'' (JStr ''Unknown'');
                 task_action = get_nested task_info ''action'' (JStr ''unknown'');
                 host_name = get_nested host_info ''name'' (JStr ''Unknown'');
                 duration = dict_get full_result ''duration'' (JStr ''N/A'');
                 duration_sec = parse_duration_seconds ops duration
             in if \<not> hashable task_action then Inl (TypeError ''unhashable type'')
                else
                  (let st1 = st\<lparr>task_times := track_time ops task_action duration_sec (task_times st)\<rparr> in
                     if shown st1 \<ge> top_n then slowest_loop ops top_n all_full_results rest st1
                     else if \<not> hashable task_id \<or> \<not> hashable host_name
                     then Inl (TypeError ''unhashable type'')
                     else if (py_key task_id, py_key host_name) \<in> set (seen st1)
                     then slowest_loop ops top_n all_full_results rest st1
                     else
                       slowest_loop ops top_n all_full_results rest
                         (st1\<lparr>seen := (py_key task_id, py_key host_name) # seen st1,
                              shown := shown st1 + 1,
                              slowest := slowest st1 @
                                [\<lparr>se_rank = shown st1 + 1, se_duration = duration,
                                  se_task_name = task_name, se_task_action = task_action,
                                  se_host_name = host_name, se_result_id = item_id result\<rparr>]\<rparr>))))"

definition initial_perf_state :: "'f perf_state" where
  \<comment> \<open>\<^verbatim>\<open>seen = set()\<close>, \<^verbatim>\<open>shown = 0\<close>, \<^verbatim>\<open>task_times = {}\<close>\<close>
  "initial_perf_state = \<lparr>seen = [], shown = 0, task_times = Map.empty, slowest = []\<rparr>"

definition slowest_tasks :: "'f float_ops \<Rightarrow> api \<Rightarrow> int \<Rightarrow> int \<Rightarrow> request list
    \<Rightarrow> (error + 'f perf_state option) \<times> request list" where
  \<comment> \<open>\<^verbatim>\<open>handle_analyze_performance\<close> from "Get results for the current playbook" to the
      end of the loop; \<open>None\<close> is the report "No results found."\<close>
  "slowest_tasks ops a pk top_n log0 =
     (case ara_list a ''results''
             [(''playbook'', JInt pk), (''order'', JStr ''-duration''), (''limit'', JInt 100)] log0 of
        (Inl e, log1) \<Rightarrow> (Inl e, log1)
      | (Inr results_data, log1) \<Rightarrow>
          if results results_data = [] then (Inr None, log1)
          else
            (let (all_full_results, log2) =
                   batch_get a ''results'' (map item_id (results results_data)) log1
             in (case slowest_loop ops top_n all_full_results (results results_data)
                        initial_perf_state of
                   Inl e \<Rightarrow> Inl e
                 | Inr st \<Rightarrow> Inr (Some st),
                 log2)))"

definition example_api :: api where
  \<comment> \<open>A server on which result 2 cannot be fetched, and whose list of failed results
      holds results 1 and 2 (no unreachable ones).\<close>
  "example_api =
     \<lparr>api_get = (\<lambda>resource pk.
          if resource = ''results'' \<and> pk = 2 then Inl NotFound
          else Inr [(''id'', JInt pk), (''status'', JStr ''failed'')]),
      api_list = (\<lambda>resource ps.
          if map_of ps ''status'' = Some (JStr ''unreachable'')
          then Inr \<lparr>count = 0, results = []\<rparr>
          else Inr \<lparr>count = 2, results = [\<lparr>item_id = 1, item_task = JNone\<rparr>,
                                          \<lparr>item_id = 2, item_task = JNone\<rparr>]\<rparr>)\<rparr>"

definition unreached_format_facts :: "dict \<Rightarrow> error + string list" where
  \<comment> \<open>The hosts of the examples below have no facts: the formatting of a non-empty
      dict of facts is not reached, whatever it does.\<close>
  "unreached_format_facts d = Inl (TypeError ''format'')"

definition host_results_query :: "int \<Rightarrow> string \<Rightarrow> (string \<times> json) list" where
  \<comment> \<open>The parameters of \<^verbatim>\<open>ara.list("results", host=pk, status=..., limit=50)\<close>.\<close>
  "host_results_query pk status =
     [(''host'', JInt pk), (''status'', JStr status), (''limit'', JInt 50)]"

definition host_header_of :: "dict \<Rightarrow> string list \<Rightarrow> host_header" where
  \<comment> \<open>The head of the report: the name and the two counters of the host record, and
      the lines of its facts.\<close>
  "host_header_of host facts_lines =
     \<lparr>hh_name = dict_get host ''name'' (JStr ''Unknown''),
      hh_failed = dict_get host ''failed'' (JInt 0),
      hh_unreachable = dict_get host ''unreachable'' (JInt 0),
      hh_facts = facts_lines\<rparr>"

definition detail_of :: "api \<Rightarrow> nat \<Rightarrow> int \<Rightarrow> error + host_entry" where
  \<comment> \<open>The entry the report owes to result \<open>pk\<close> at position \<open>i\<close>, read from the
      server's answer: its status, task name, action and message when the record was
      fetched, "could not fetch details" otherwise; an exception when the status is not
      a string or the message cannot be cut.\<close>
  "detail_of a i pk =
     (case api_get a ''results'' pk of
        Inl e \<Rightarrow> Inr (CouldNotFetchDetails i pk)
      | Inr fr \<Rightarrow>
          if fr = [] then Inr (CouldNotFetchDetails i pk)
          else
            (case dict_get fr ''status'' (JStr ''unknown'') of
               JStr st \<Rightarrow>
                 (case error_msg fr of
                    Inl e \<Rightarrow> Inl e
                  | Inr m \<Rightarrow>
                      Inr (Details i pk st
                             (get_nested (dict_get fr ''task'' (JDict [])) ''name'' (JStr ''Unknown''))
                             (get_nested (dict_get fr ''task'' (JDict [])) ''action'' (JStr ''unknown''))
                             m))
             | _ \<Rightarrow> Inl (AttributeError ''upper'')))"

fun details_from :: "api \<Rightarrow> nat \<Rightarrow> int list \<Rightarrow> error + host_entry list" where
  \<comment> \<open>The entries of positions \<open>i\<close>, \<open>i + 1\<close>, ... in order, or the first exception.\<close>
  "details_from a i [] = Inr []"
| "details_from a i (pk # pks) =
     (case detail_of a i pk of
        Inl e \<Rightarrow> Inl e
      | Inr entry \<Rightarrow>
          (case details_from a (Suc i) pks of
             Inl e \<Rightarrow> Inl e
           | Inr entries \<Rightarrow> Inr (entry # entries)))"

definition found_and_more :: "error + host_report \<Rightarrow> (nat \<times> nat option) option" where
  \<comment> \<open>The count of "Found N failure(s)" and of "... and M more" in a report.\<close>
  "found_and_more r =
     (case r of Inr (HostFailures h n es m) \<Rightarrow> Some (n, m) | _ \<Rightarrow> None)"

definition server_total :: "error + page \<Rightarrow> int option" where
  \<comment> \<open>The total the server gives in the \<^verbatim>\<open>count\<close> field of a list answer, next to the
      page of results (\<^verbatim>\<open>handle_list_playbooks\<close> prints "len(results) of count").\<close>
  "server_total answer = (case answer of Inl e \<Rightarrow> None | Inr p \<Rightarrow> Some (count p))"

definition truncated_api :: api where
  \<comment> \<open>A server on which the host has 75 failed results: asked for at most 50, the list
      endpoint returns 50 of them and the total in \<^verbatim>\<open>count\<close>.\<close>
  "truncated_api =
     \<lparr>api_get = (\<lambda>resource pk. Inr [(''id'', JInt pk), (''status'', JStr ''failed'')]),
      api_list = (\<lambda>resource ps.
          if map_of ps ''status'' = Some (JStr ''unreachable'')
          then Inr \<lparr>count = 0, results = []\<rparr>
          else Inr \<lparr>count = 75,
                    results = map (\<lambda>i. \<lparr>item_id = i, item_task = JNone\<rparr>) [1..50]\<rparr>)\<rparr>"

definition quiet_host_api :: api where
  \<comment> \<open>A server on which the host has no failed and no unreachable result.\<close>
  "quiet_host_api =
     \<lparr>api_get = (\<lambda>resource pk. Inr [(''id'', JInt pk), (''name'', JStr ''web2'')]),
      api_list = (\<lambda>resource ps. Inr \<lparr>count = 0, results = []\<rparr>)\<rparr>"

definition busy_host_api :: api where
  \<comment> \<open>A server on which the host has twelve failed and two unreachable results, all of
      which can be fetched but result 3.\<close>
  "busy_host_api =
     \<lparr>api_get = (\<lambda>resource pk.
          if resource = ''hosts''
          then Inr [(''id'', JInt pk), (''name'', JStr ''web1''), (''failed'', JInt 12),
                    (''unreachable'', JInt 2)]
          else if pk = 3 then Inl NotFound
          else if pk = 2
          then Inr [(''id'', JInt 2), (''status'', JStr ''failed''),
                    (''task'', JDict [(''name'', JStr ''ping''), (''action'', JStr ''ping'')]),
                    (''content'', JDict [(''msg'', JStr ''timed out'')])]
          else Inr [(''id'', JInt pk), (''status'', JStr ''failed'')]),
      api_list = (\<lambda>resource ps.
          if map_of ps ''status'' = Some (JStr ''unreachable'')
          then Inr \<lparr>count = 2, results = map (\<lambda>i. \<lparr>item_id = i, item_task = JNone\<rparr>) [13, 14]\<rparr>
          else Inr \<lparr>count = 12,
                    results = map (\<lambda>i. \<lparr>item_id = i, item_task = JNone\<rparr>)
                                [1, 2, 3, 4, 5, 6, 7, 8, 9, 10, 11, 12]\<rparr>)\<rparr>"






definition seconds_ops :: "int float_ops" where
  \<comment> \<open>Whole seconds, for evaluating the loop on an example.\<close>
  "seconds_ops = \<lparr>fzero = 0, fadd = (+),
                   parse_duration_seconds = (\<lambda>d. case d of JInt n \<Rightarrow> n | _ \<Rightarrow> 0)\<rparr>"

definition perf_api :: api where
  \<comment> \<open>A playbook with three results: results 1 and 2 are the same task on the same
      host, result 3 is another task.\<close>
  "perf_api =
     \<lparr>api_get = (\<lambda>resource pk.
          if pk = 3
          then Inr [(''id'', JInt 3), (''duration'', JInt 1),
                    (''task'', JDict [(''id'', JInt 21), (''name'', JStr ''copy file''), (''action'', JStr ''copy'')]),
                    (''host'', JDict [(''id'', JInt 5), (''name'', JStr ''web1'')])]
          else Inr [(''id'', JInt pk), (''duration'', JInt (if pk = 1 then 3 else 2)),
                    (''task'', JDict [(''id'', JInt 20), (''name'', JStr ''run script''), (''action'', JStr ''shell'')]),
                    (''host'', JDict [(''id'', JInt 5), (''name'', JStr ''web1'')])]),
      api_list = (\<lambda>resource ps.
          Inr \<lparr>count = 3, results = map (\<lambda>i. \<lparr>item_id = i, item_task = JInt 20\<rparr>) [1, 2, 3]\<rparr>)\<rparr>"

definition long_digits :: string where
  \<comment> \<open>An identifier of 4301 digits, one more than the default digit limit.\<close>
  "long_digits = replicate 4301 CHR ''1''"

definition default_env :: environment where
  \<comment> \<open>No \<^verbatim>\<open>ARA_API_SERVER\<close> in the environment: the server is \<^verbatim>\<open>http://127.0.0.1:8000\<close>;
      the interpreter's default limit of 4300 digits.\<close>
  "default_env = \<lparr>ARA_API_SERVER = None, bracketed_ok = (\<lambda>_. True),
                  int_max_str_digits = 4300\<rparr>"

section \<open>Properties of the resolver\<close>

subsection \<open>Characters\<close>

lemma isdigit_chr_not_colon: "isdigit_chr c \<Longrightarrow> c \<noteq> CHR '':''"
  by (auto simp add: isdigit_chr_def code_def)

lemma isdigit_chr_not_slash: "isdigit_chr c \<Longrightarrow> c \<noteq> CHR ''/''"
  by (auto simp add: isdigit_chr_def code_def)

lemma isdigit_not_mem:
  assumes "isdigit u" and "\<And>c. isdigit_chr c \<Longrightarrow> c \<noteq> x"
  shows "x \<notin> set u"
  using assms by (auto simp add: isdigit_def list_all_iff)

subsection \<open>Purely numeric input\<close>

text \<open>
  C3 (as the code has it). \<^verbatim>\<open>parse_ara_url\<close> rejects every input that is purely
  numeric once stripped, with the error "Numeric ID provided without resource context".
  \<^verbatim>\<open>extract_id\<close>, which every tool handler calls on its \<^verbatim>\<open>id\<close> argument, tests
  \<^verbatim>\<open>isdigit\<close> first and hands the string to \<^verbatim>\<open>int\<close>: a string of decimal digits
  within the interpreter's digit limit resolves to its value; beyond the limit, or with a
  digit that is not decimal, \<^verbatim>\<open>int\<close> raises ValueError.
\<close>

theorem numeric_input_resolution:
  assumes "isdigit (strip s)"
  shows "parse_ara_url env s = Inl (NumericIdWithoutContext (strip s))
         \<and> extract_id env (StrArg s) = py_int (int_max_str_digits env) (strip s)
         \<and> (list_all isdecimal_chr (strip s)
              \<and> within_digit_limit (int_max_str_digits env) (strip s) \<longrightarrow>
              extract_id env (StrArg s) = Inr (decimal_value (strip s)))
         \<and> (\<not> (list_all isdecimal_chr (strip s)
                 \<and> within_digit_limit (int_max_str_digits env) (strip s)) \<longrightarrow>
              extract_id env (StrArg s) = Inl (IntValueError (strip s)))"
  using assms by (auto simp add: parse_ara_url_def extract_id_def py_int_def isdigit_def)

theorem numeric_input_resolution_witness:
  "isdigit (strip '' 4307 '') \<and> list_all isdecimal_chr (strip '' 4307 '')
   \<and> within_digit_limit (int_max_str_digits default_env) (strip '' 4307 '')
   \<and> parse_ara_url default_env '' 4307 '' = Inl (NumericIdWithoutContext ''4307'')
   \<and> extract_id default_env (StrArg '' 4307 '') = Inr 4307
   \<and> isdigit (strip [CHR 0xB2]) \<and> \<not> list_all isdecimal_chr (strip [CHR 0xB2])
   \<and> extract_id default_env (StrArg [CHR 0xB2]) = Inl (IntValueError [CHR 0xB2])"
proof -
  have h: "isdigit (strip '' 4307 '')" by code_simp
  have d: "list_all isdecimal_chr (strip '' 4307 '')" by code_simp
  have w: "within_digit_limit (int_max_str_digits default_env) (strip '' 4307 '')" by code_simp
  have s: "strip '' 4307 '' = ''4307''" by code_simp
  have v: "decimal_value ''4307'' = 4307" by code_simp
  have h2: "isdigit (strip [CHR 0xB2])" by code_simp
  have d2: "\<not> list_all isdecimal_chr (strip [CHR 0xB2])" by code_simp
  have s2: "strip [CHR 0xB2] = [CHR 0xB2]" by code_simp
  have p: "py_int (int_max_str_digits default_env) ''4307'' = Inr 4307" by code_simp
  have p2: "py_int (int_max_str_digits default_env) [CHR 0xB2] = Inl (IntValueError [CHR 0xB2])"
    by code_simp
  from numeric_input_resolution [OF h, of default_env]
    numeric_input_resolution [OF h2, of default_env] h d w s v h2 d2 s2 p p2
  show ?thesis by simp
qed

text \<open>
  The claim as written fails for the resolver of the handlers: a bare numeric string
  is resolved, not rejected.
\<close>

theorem extract_id_numeric_counterexample:
  "extract_id default_env (StrArg ''4307'') = Inr 4307"
  by code_simp

subsection \<open>Origin validation\<close>

lemma split_scheme_rest_subset: "set (snd (split_scheme u)) \<subseteq> set u"
  by (auto simp add: split_scheme_def Let_def dest: in_set_dropD)

lemma split_scheme_colon: "fst (split_scheme u) \<noteq> [] \<Longrightarrow> CHR '':'' \<in> set u"
  by (auto simp add: split_scheme_def Let_def split: if_splits)

lemma splitnetloc_rest_subset: "set (snd (splitnetloc u)) \<subseteq> set u"
  by (auto simp add: splitnetloc_def dest: set_dropWhileD in_set_dropD)

lemma split_first_subset: "set (fst (split_first c u)) \<subseteq> set u"
  by (auto simp add: split_first_def dest: set_takeWhileD)

lemma clean_subset: "set (filter (\<lambda>c. \<not> unsafe_chr c) (dropWhile c0_or_space u)) \<subseteq> set u"
  by (auto dest: set_dropWhileD)

lemma urlsplit_path_subset:
  assumes "urlsplit env u = Inr r"
  shows "set (path r) \<subseteq> set u"
proof -
  define u1 where "u1 = filter (\<lambda>c. \<not> unsafe_chr c) (dropWhile c0_or_space u)"
  define u2 where "u2 = snd (split_scheme u1)"
  define u3 where "u3 = (if take 2 u2 = ''//'' then snd (splitnetloc u2) else u2)"
  define u4 where "u4 = (if CHR ''#'' \<in> set u3 then fst (split_first CHR ''#'' u3) else u3)"
  define u5 where "u5 = (if CHR ''?'' \<in> set u4 then fst (split_first CHR ''?'' u4) else u4)"
  have p: "path r = u5"
    using assms unfolding u5_def u4_def u3_def u2_def u1_def
    by (auto simp add: urlsplit_def Let_def split_beta split: if_splits)
  have "set u5 \<subseteq> set u4" unfolding u5_def using split_first_subset by simp
  also have "set u4 \<subseteq> set u3" unfolding u4_def using split_first_subset by simp
  also have "set u3 \<subseteq> set u2" unfolding u3_def using splitnetloc_rest_subset by simp
  also have "set u2 \<subseteq> set u1" unfolding u2_def by (rule split_scheme_rest_subset)
  also have "set u1 \<subseteq> set u" unfolding u1_def by (rule clean_subset)
  finally show ?thesis using p by simp
qed

lemma urlsplit_scheme_colon:
  assumes "urlsplit env u = Inr r" and "scheme r \<noteq> []"
  shows "CHR '':'' \<in> set u"
proof -
  define u1 where "u1 = filter (\<lambda>c. \<not> unsafe_chr c) (dropWhile c0_or_space u)"
  have "scheme r = fst (split_scheme u1)"
    using assms(1) unfolding u1_def
    by (auto simp add: urlsplit_def Let_def split_beta split: if_splits)
  with assms(2) have "fst (split_scheme u1) \<noteq> []" by simp
  then have "CHR '':'' \<in> set u1" by (rule split_scheme_colon)
  with clean_subset [of u] show ?thesis unfolding u1_def by blast
qed

lemma splitparams_subset: "set (fst (splitparams u)) \<subseteq> set u"
proof -
  let ?seg = "rev (takeWhile (\<lambda>c. c \<noteq> CHR ''/'') (rev u))"
  have seg: "set ?seg \<subseteq> set u" by (auto dest: set_takeWhileD)
  have "x \<in> set ?seg" if "x \<in> set (takeWhile (\<lambda>c. c \<noteq> CHR '';'') ?seg)" for x
    using set_takeWhileD [OF that] by blast
  with seg have "set (takeWhile (\<lambda>c. c \<noteq> CHR '';'') ?seg) \<subseteq> set u" by blast
  moreover have "set (take (length u - length ?seg) u) \<subseteq> set u" by (rule set_take_subset)
  ultimately show ?thesis
    by (simp add: splitparams_def Let_def)
qed

lemma urlparse_path_subset:
  assumes "urlparse env u = Inr p"
  shows "set (path p) \<subseteq> set u"
proof (cases "urlsplit env u")
  case (Inl e)
  with assms show ?thesis by (simp add: urlparse_def)
next
  case (Inr r)
  from urlsplit_path_subset [OF Inr] splitparams_subset [of "path r"] assms Inr
  show ?thesis
    by (auto simp add: urlparse_def split_beta split: if_splits)
qed

lemma urlparse_scheme_colon:
  assumes "urlparse env u = Inr p" and "scheme p \<noteq> []"
  shows "CHR '':'' \<in> set u"
proof (cases "urlsplit env u")
  case (Inl e)
  with assms show ?thesis by (simp add: urlparse_def)
next
  case (Inr r)
  with assms have "scheme r \<noteq> []"
    by (auto simp add: urlparse_def split_beta split: if_splits)
  with Inr show ?thesis by (rule urlsplit_scheme_colon)
qed

lemma rstrip_slash_last: "c \<noteq> CHR ''/'' \<Longrightarrow> q = xs @ [c] \<Longrightarrow> rstrip_slash q = q"
  by (simp add: rstrip_slash_def rstrip_chars_def)

lemma isdecimal_not_slash: "isdecimal_chr c \<Longrightarrow> c \<noteq> CHR ''/''"
  by (auto simp add: isdecimal_chr_def code_def)

lemma match_ara_path_Some:
  assumes "match_ara_path q = Some (kind, digits)"
  shows "CHR ''/'' \<in> set q" and "rstrip_slash q = q"
    and "digits \<noteq> []" and "list_all isdecimal_chr digits"
proof -
  from assms obtain r where q: "q = CHR ''/'' # r"
    by (cases q) (auto simp add: match_ara_path_def split: if_splits)
  then show "CHR ''/'' \<in> set q" by simp
  let ?w = "takeWhile isword_chr r" and ?r1 = "dropWhile isword_chr r"
  from assms q have "\<exists>r2. ?r1 = CHR ''/'' # r2 \<and> digits = takeWhile isdecimal_chr r2
      \<and> takeWhile isdecimal_chr r2 \<noteq> []
      \<and> (dropWhile isdecimal_chr r2 = [] \<or> dropWhile isdecimal_chr r2 = ''.html''
         \<or> dropWhile isdecimal_chr r2 = [CHR 0x0A]
         \<or> dropWhile isdecimal_chr r2 = ''.html'' @ [CHR 0x0A])"
    by (auto simp add: match_ara_path_def Let_def split: if_splits list.splits)
  then obtain r2 where r1: "?r1 = CHR ''/'' # r2"
    and d: "digits = takeWhile isdecimal_chr r2" "takeWhile isdecimal_chr r2 \<noteq> []"
    and r3: "dropWhile isdecimal_chr r2 = [] \<or> dropWhile isdecimal_chr r2 = ''.html''
         \<or> dropWhile isdecimal_chr r2 = [CHR 0x0A]
         \<or> dropWhile isdecimal_chr r2 = ''.html'' @ [CHR 0x0A]"
    by blast
  let ?d = "takeWhile isdecimal_chr r2" and ?r3 = "dropWhile isdecimal_chr r2"
  have all: "list_all isdecimal_chr ?d"
    by (auto simp add: list_all_iff dest: set_takeWhileD)
  with d show "digits \<noteq> []" and "list_all isdecimal_chr digits"
    by simp_all
  have decomp: "q = (CHR ''/'' # ?w @ [CHR ''/'']) @ ?d @ ?r3"
    using q r1 takeWhile_dropWhile_id [of isword_chr r] takeWhile_dropWhile_id [of isdecimal_chr r2]
    by simp
  from d(2) obtain ds c where dc: "?d = ds @ [c]" by (cases ?d rule: rev_cases) auto
  with all have c: "c \<noteq> CHR ''/''" by (auto dest: isdecimal_not_slash)
  from r3 show "rstrip_slash q = q"
  proof (elim disjE)
    assume "?r3 = []"
    with decomp dc have "q = (CHR ''/'' # ?w @ [CHR ''/''] @ ds) @ [c]" by simp
    with c show ?thesis by (rule rstrip_slash_last)
  next
    assume "?r3 = ''.html''"
    with decomp have "q = (CHR ''/'' # ?w @ [CHR ''/''] @ ?d @ ''.htm'') @ [CHR ''l'']" by simp
    moreover have "CHR ''l'' \<noteq> CHR ''/''" by simp
    ultimately show ?thesis using rstrip_slash_last by blast
  next
    assume "?r3 = [CHR 0x0A]"
    with decomp have "q = (CHR ''/'' # ?w @ [CHR ''/''] @ ?d) @ [CHR 0x0A]" by simp
    moreover have "CHR 0x0A \<noteq> CHR ''/''" by simp
    ultimately show ?thesis using rstrip_slash_last by blast
  next
    assume "?r3 = ''.html'' @ [CHR 0x0A]"
    with decomp have "q = (CHR ''/'' # ?w @ [CHR ''/''] @ ?d @ ''.html'') @ [CHR 0x0A]" by simp
    moreover have "CHR 0x0A \<noteq> CHR ''/''" by simp
    ultimately show ?thesis using rstrip_slash_last by blast
  qed
qed

text \<open>
  C10 (as the code has it). When the stripped input parses with no scheme or with no
  network location, \<^verbatim>\<open>validate_url_origin\<close> returns without raising, and
  \<^verbatim>\<open>parse_ara_url\<close> resolves the input to the kind and the identifier of its path
  whenever the path matches the pattern and its digits are within the interpreter's
  digit limit: the configured server is never consulted. Beyond the limit \<^verbatim>\<open>int\<close>
  raises ValueError.
\<close>

theorem bare_path_bypasses_origin_check:
  assumes "urlparse env (strip s) = Inr p" and "scheme p = [] \<or> netloc p = []"
  shows "validate_url_origin env (strip s) = Inr ()
         \<and> (\<forall>kind digits. match_ara_path (path p) = Some (kind, digits) \<longrightarrow>
               parse_ara_url env s =
                 (if within_digit_limit (int_max_str_digits env) digits
                  then Inr (kind, decimal_value digits)
                  else Inl (IntValueError digits)))"
proof -
  have v: "validate_url_origin env (strip s) = Inr ()"
    using assms by (auto simp add: validate_url_origin_def)
  have "parse_ara_url env s =
          (if within_digit_limit (int_max_str_digits env) digits
           then Inr (kind, decimal_value digits) else Inl (IntValueError digits))"
    if m: "match_ara_path (path p) = Some (kind, digits)" for kind digits
  proof -
    from match_ara_path_Some [OF m] urlparse_path_subset [OF assms(1)]
    have sl: "CHR ''/'' \<in> set (strip s)" and rs: "rstrip_slash (path p) = path p"
      and dg: "digits \<noteq> []" "list_all isdecimal_chr digits"
      by auto
    from sl have nd: "\<not> isdigit (strip s)"
      using isdigit_not_mem [of "strip s" "CHR ''/''"] isdigit_chr_not_slash by blast
    show ?thesis
      using nd v assms(1) rs m dg by (simp add: parse_ara_url_def Let_def py_int_def)
  qed
  with v show ?thesis by blast
qed

text \<open>
  C5 (as the code has it). When the stripped input parses with both a scheme and a
  network location, and its \<^verbatim>\<open>scheme://netloc\<close> differs from the configured server's
  once both are lower-cased, \<^verbatim>\<open>validate_url_origin\<close> and \<^verbatim>\<open>parse_ara_url\<close> raise the
  origin-mismatch error, whatever the path is.
\<close>

theorem origin_mismatch_rejected:
  assumes "urlparse env (strip s) = Inr p" and "scheme p \<noteq> []" and "netloc p \<noteq> []"
    and "urlparse env (get_web_base env) = Inr c"
    and "lower (origin p) \<noteq> lower (origin c)"
  shows "validate_url_origin env (strip s) = Inl (OriginMismatch (origin p) (origin c))
         \<and> parse_ara_url env s = Inl (OriginMismatch (origin p) (origin c))"
proof -
  have v: "validate_url_origin env (strip s) = Inl (OriginMismatch (origin p) (origin c))"
    using assms by (simp add: validate_url_origin_def)
  from urlparse_scheme_colon [OF assms(1,2)] have nd: "\<not> isdigit (strip s)"
    using isdigit_not_mem [of "strip s" "CHR '':''"] isdigit_chr_not_colon by blast
  with v show ?thesis by (simp add: parse_ara_url_def Let_def)
qed

theorem bare_path_bypasses_origin_check_witness:
  "urlparse default_env (strip ''/playbooks/42.html'')
     = Inr \<lparr>scheme = [], netloc = [], path = ''/playbooks/42.html'', params = [], query = [],
            fragment = []\<rparr>
   \<and> validate_url_origin default_env (strip ''/playbooks/42.html'') = Inr ()
   \<and> match_ara_path ''/playbooks/42.html'' = Some (''playbooks'', ''42'')
   \<and> within_digit_limit (int_max_str_digits default_env) ''42''
   \<and> parse_ara_url default_env ''/playbooks/42.html'' = Inr (''playbooks'', 42)"
proof -
  let ?p = "\<lparr>scheme = [], netloc = [], path = ''/playbooks/42.html'', params = [], query = [],
            fragment = []\<rparr>"
  have u: "urlparse default_env (strip ''/playbooks/42.html'') = Inr ?p" by code_simp
  have n: "scheme ?p = [] \<or> netloc ?p = []" by simp
  have m: "match_ara_path ''/playbooks/42.html'' = Some (''playbooks'', ''42'')" by code_simp
  have w: "within_digit_limit (int_max_str_digits default_env) ''42''" by code_simp
  have v: "decimal_value ''42'' = 42" by code_simp
  from bare_path_bypasses_origin_check [OF u n] m w v u show ?thesis by simp
qed

theorem origin_mismatch_rejected_witness:
  "urlparse default_env (strip ''https://evil.example/playbooks/42.html'')
     = Inr \<lparr>scheme = ''https'', netloc = ''evil.example'', path = ''/playbooks/42.html'',
            params = [], query = [], fragment = []\<rparr>
   \<and> urlparse default_env (get_web_base default_env)
     = Inr \<lparr>scheme = ''http'', netloc = ''127.0.0.1:8000'', path = [], params = [], query = [],
            fragment = []\<rparr>
   \<and> parse_ara_url default_env ''https://evil.example/playbooks/42.html''
     = Inl (OriginMismatch ''https://evil.example'' ''http://127.0.0.1:8000'')"
proof -
  let ?p = "\<lparr>scheme = ''https'', netloc = ''evil.example'', path = ''/playbooks/42.html'',
            params = [], query = [], fragment = []\<rparr>"
  let ?c = "\<lparr>scheme = ''http'', netloc = ''127.0.0.1:8000'', path = [], params = [], query = [],
            fragment = []\<rparr>"
  have u: "urlparse default_env (strip ''https://evil.example/playbooks/42.html'') = Inr ?p"
    by code_simp
  have c: "urlparse default_env (get_web_base default_env) = Inr ?c" by code_simp
  have s: "scheme ?p \<noteq> []" and n: "netloc ?p \<noteq> []" by simp_all
  have d: "lower (origin ?p) \<noteq> lower (origin ?c)" by code_simp
  from origin_mismatch_rejected [OF u s n c d] u c show ?thesis by (simp add: origin_def)
qed

text \<open>
  The claim as written fails for a reference that names another host without a scheme:
  the origin check is skipped and the path is resolved. The same holds for a reference
  with a foreign scheme and no host.
\<close>

theorem origin_check_skipped_counterexample:
  "urlparse default_env ''//evil.example/playbooks/42.html''
     = Inr \<lparr>scheme = [], netloc = ''evil.example'', path = ''/playbooks/42.html'',
            params = [], query = [], fragment = []\<rparr>
   \<and> validate_url_origin default_env ''//evil.example/playbooks/42.html'' = Inr ()
   \<and> parse_ara_url default_env ''//evil.example/playbooks/42.html'' = Inr (''playbooks'', 42)"
  by code_simp

lemma origin_check_skipped_scheme_only:
  "parse_ara_url default_env ''ftp:/playbooks/42.html'' = Inr (''playbooks'', 42)"
  by code_simp

subsection \<open>Resolving a same-origin URL\<close>

lemma code_char_of: "n < 256 \<Longrightarrow> code (char_of n) = n"
  by (simp add: code_def)

lemma lower_chr_idem: "lower_chr (lower_chr c) = lower_chr c"
  by (auto simp add: lower_chr_def Let_def code_char_of)

lemma lower_idem: "lower (lower s) = lower s"
  by (simp add: lower_def lower_chr_idem)

lemma lower_append: "lower (xs @ ys) = lower xs @ lower ys"
  by (simp add: lower_def)

lemma scheme_chr_facts:
  assumes "scheme_chr c"
  shows "c \<noteq> CHR '':''" and "\<not> unsafe_chr c"
  using assms by (auto simp add: scheme_chr_def unsafe_chr_def Let_def code_def)

lemma ascii_alpha_facts:
  assumes "ascii_alpha_chr c"
  shows "\<not> c0_or_space c" and "\<not> isspace_chr c"
  using assms by (auto simp add: ascii_alpha_chr_def c0_or_space_def isspace_chr_def Let_def)

lemma isword_chr_facts:
  assumes "isword_chr c"
  shows "c \<noteq> CHR ''/''" and "c \<noteq> CHR ''?''" and "c \<noteq> CHR ''#''" and "c \<noteq> CHR '';''"
    and "\<not> unsafe_chr c"
  using assms by (auto simp add: isword_chr_def unsafe_chr_def Let_def code_def)

lemma isdecimal_chr_facts:
  assumes "isdecimal_chr c"
  shows "isword_chr c" and "c \<noteq> CHR ''.''" and "\<not> isspace_chr c"
  using assms by (auto simp add: isdecimal_chr_def isword_chr_def isspace_chr_def Let_def code_def)

lemma py_str_nat_digits: "py_str_nat n \<noteq> [] \<and> list_all isdecimal_chr (py_str_nat n)"
proof (induction n rule: py_str_nat.induct)
  case (1 n)
  show ?case
  proof (cases "n < 10")
    case True
    then show ?thesis
      by (subst py_str_nat.simps, subst (2) py_str_nat.simps)
        (simp add: isdecimal_chr_def code_char_of)
  next
    case False
    have "n mod 10 < 10" by simp
    then have "isdecimal_chr (char_of (48 + n mod 10))"
      by (simp add: isdecimal_chr_def code_char_of)
    with False 1 show ?thesis
      by (subst py_str_nat.simps, subst (2) py_str_nat.simps) simp
  qed
qed

lemma decimal_value_snoc: "decimal_value (xs @ [c]) = 10 * decimal_value xs + digit_val c"
  by (simp add: decimal_value_def)

lemma decimal_value_str: "decimal_value (py_str_nat n) = int n"
proof (induction n rule: py_str_nat.induct)
  case (1 n)
  show ?case
  proof (cases "n < 10")
    case True
    then show ?thesis
      by (subst py_str_nat.simps) (simp add: decimal_value_def digit_val_def code_char_of)
  next
    case False
    have "n mod 10 < 10" by simp
    then have d: "digit_val (char_of (48 + n mod 10)) = int (n mod 10)"
      by (simp add: digit_val_def code_char_of)
    have "decimal_value (py_str_nat n) = 10 * int (n div 10) + int (n mod 10)"
      using False 1 d by (subst py_str_nat.simps) (simp add: decimal_value_snoc)
    then show ?thesis by presburger
  qed
qed

lemma takeWhile_stop:
  "(\<And>x. x \<in> set xs \<Longrightarrow> P x) \<Longrightarrow> \<not> P y \<Longrightarrow> takeWhile P (xs @ y # ys) = xs"
  by (simp add: takeWhile_append2)

lemma dropWhile_stop:
  "(\<And>x. x \<in> set xs \<Longrightarrow> P x) \<Longrightarrow> \<not> P y \<Longrightarrow> dropWhile P (xs @ y # ys) = y # ys"
  by (simp add: dropWhile_append2)

lemma split_scheme_url:
  assumes "sch \<noteq> []" and "ascii_alpha_chr (hd sch)" and "list_all scheme_chr sch"
  shows "split_scheme (sch @ CHR '':'' # w) = (lower sch, w)"
proof -
  have pre: "takeWhile (\<lambda>x. x \<noteq> CHR '':'') (sch @ CHR '':'' # w) = sch"
    using assms(3) by (intro takeWhile_stop) (auto simp add: list_all_iff scheme_chr_facts)
  have hd: "hd (sch @ CHR '':'' # w) = hd sch" using assms(1) by simp
  show ?thesis
    unfolding split_scheme_def Let_def pre hd using assms by simp
qed

lemma splitnetloc_url:
  assumes "\<forall>c\<in>set nl. \<not> netloc_delim c"
  shows "splitnetloc (CHR ''/'' # CHR ''/'' # nl @ CHR ''/'' # w) = (nl, CHR ''/'' # w)"
proof -
  have "takeWhile (\<lambda>c. \<not> netloc_delim c) (nl @ CHR ''/'' # w) = nl"
    using assms by (intro takeWhile_stop) (auto simp add: netloc_delim_def)
  moreover have "dropWhile (\<lambda>c. \<not> netloc_delim c) (nl @ CHR ''/'' # w) = CHR ''/'' # w"
    using assms by (intro dropWhile_stop) (auto simp add: netloc_delim_def)
  ultimately show ?thesis by (simp add: splitnetloc_def)
qed

lemma path_before_tail:
  assumes "\<forall>c\<in>set P. c \<noteq> CHR ''#'' \<and> c \<noteq> CHR ''?''"
    and "t = [] \<or> hd t = CHR ''?'' \<or> hd t = CHR ''#''"
    and "u4 = fst (if CHR ''#'' \<in> set (P @ t) then split_first CHR ''#'' (P @ t) else (P @ t, []))"
  shows "fst (if CHR ''?'' \<in> set u4 then split_first CHR ''?'' u4 else (u4, [])) = P"
proof (cases t)
  case Nil
  with assms(1,3) have "u4 = P" by auto
  with assms(1) show ?thesis by auto
next
  case (Cons c t')
  with assms(2) consider "c = CHR ''#''" | "c = CHR ''?''" by auto
  then show ?thesis
  proof cases
    case 1
    have "takeWhile (\<lambda>x. x \<noteq> CHR ''#'') (P @ CHR ''#'' # t') = P"
      using assms(1) by (intro takeWhile_stop) auto
    with 1 Cons assms(3) have "u4 = P" by (simp add: split_first_def)
    with assms(1) show ?thesis by auto
  next
    case 2
    have "\<exists>x. u4 = P @ CHR ''?'' # x"
    proof (cases "CHR ''#'' \<in> set (P @ t)")
      case True
      have "takeWhile (\<lambda>x. x \<noteq> CHR ''#'') (P @ CHR ''?'' # t')
              = P @ CHR ''?'' # takeWhile (\<lambda>x. x \<noteq> CHR ''#'') t'"
        using assms(1) by (simp add: takeWhile_append2)
      with True 2 Cons assms(3) show ?thesis by (simp add: split_first_def)
    next
      case False
      with 2 Cons assms(3) show ?thesis by simp
    qed
    then obtain x where u4: "u4 = P @ CHR ''?'' # x" by blast
    have "takeWhile (\<lambda>x. x \<noteq> CHR ''?'') (P @ CHR ''?'' # x) = P"
      using assms(1) by (intro takeWhile_stop) auto
    with u4 show ?thesis by (simp add: split_first_def)
  qed
qed

lemma urlsplit_url:
  assumes clean: "filter (\<lambda>c. \<not> unsafe_chr c) (dropWhile c0_or_space u)
                    = sch @ CHR '':'' # CHR ''/'' # CHR ''/'' # nl @ CHR ''/'' # P @ t"
    and sch: "sch \<noteq> []" "ascii_alpha_chr (hd sch)" "list_all scheme_chr sch"
    and nl: "\<forall>c\<in>set nl. \<not> netloc_delim c"
       "(CHR ''['' \<in> set nl) = (CHR '']'' \<in> set nl)"
       "CHR ''['' \<in> set nl \<longrightarrow> bracketed_ok env nl"
    and P: "\<forall>c\<in>set P. c \<noteq> CHR ''#'' \<and> c \<noteq> CHR ''?''"
    and t: "t = [] \<or> hd t = CHR ''?'' \<or> hd t = CHR ''#''"
  shows "\<exists>r. urlsplit env u = Inr r \<and> scheme r = lower sch \<and> netloc r = nl
              \<and> path r = CHR ''/'' # P"
proof -
  let ?w = "CHR ''/'' # CHR ''/'' # nl @ CHR ''/'' # P @ t"
  let ?Q = "CHR ''/'' # P"
  define u4 where
    "u4 = fst (if CHR ''#'' \<in> set (?Q @ t) then split_first CHR ''#'' (?Q @ t) else (?Q @ t, []))"
  have s1: "split_scheme (sch @ CHR '':'' # ?w) = (lower sch, ?w)"
    using sch by (rule split_scheme_url)
  have s2: "splitnetloc ?w = (nl, ?Q @ t)"
    using splitnetloc_url [OF nl(1), of "P @ t"] by simp
  have Q: "\<forall>c\<in>set ?Q. c \<noteq> CHR ''#'' \<and> c \<noteq> CHR ''?''" using P by simp
  have p5: "fst (if CHR ''?'' \<in> set u4 then split_first CHR ''?'' u4 else (u4, [])) = ?Q"
    using Q t u4_def by (rule path_before_tail)
  have "urlsplit env u =
      Inr \<lparr>scheme = lower sch, netloc = nl,
           path = fst (if CHR ''?'' \<in> set u4 then split_first CHR ''?'' u4 else (u4, [])),
           params = [],
           query = snd (if CHR ''?'' \<in> set u4 then split_first CHR ''?'' u4 else (u4, [])),
           fragment = snd (if CHR ''#'' \<in> set (?Q @ t) then split_first CHR ''#'' (?Q @ t)
                           else (?Q @ t, []))\<rparr>"
    unfolding urlsplit_def clean Let_def s1 split_conv
    using nl(2,3) by (simp add: s2 u4_def split_beta)
  with p5 show ?thesis by simp
qed

lemma rstrip_chars_append:
  assumes "A \<noteq> []" and "\<not> P (last A)"
  shows "rstrip_chars P (A @ rest) = A @ rstrip_chars P rest"
proof -
  from assms(1) obtain xs x where A: "A = xs @ [x]" by (cases A rule: rev_cases) auto
  with assms(2) have d: "dropWhile P (rev A) = rev A" by simp
  show ?thesis
  proof (cases "\<forall>x\<in>set rest. P x")
    case True
    then have "dropWhile P (rev rest @ rev A) = dropWhile P (rev A)"
      by (intro dropWhile_append2) simp
    with d have "dropWhile P (rev rest @ rev A) = rev A" by simp
    moreover from True have "dropWhile P (rev rest) = []" by simp
    ultimately show ?thesis by (simp add: rstrip_chars_def)
  next
    case False
    then obtain y where "y \<in> set (rev rest)" and "\<not> P y" by auto
    then have "dropWhile P (rev rest @ rev A) = dropWhile P (rev rest) @ rev A"
      by (rule dropWhile_append1)
    then show ?thesis by (simp add: rstrip_chars_def)
  qed
qed

lemma rstrip_chars_head:
  assumes "\<not> P c"
  shows "\<exists>r. rstrip_chars P (c # r0) = c # r"
  using rstrip_chars_append [of "[c]" P r0] assms by simp

lemma clean_url:
  assumes "A \<noteq> []" and "\<not> isspace_chr (hd A)" and "\<not> c0_or_space (hd A)"
    and "\<not> isspace_chr (last A)" and "\<forall>c\<in>set A. \<not> unsafe_chr c"
    and "rest = [] \<or> hd rest = CHR ''?'' \<or> hd rest = CHR ''#''"
  shows "\<exists>t. strip (A @ rest) = A @ rstrip_chars isspace_chr rest
            \<and> filter (\<lambda>c. \<not> unsafe_chr c) (dropWhile c0_or_space (strip (A @ rest))) = A @ t
            \<and> (t = [] \<or> hd t = CHR ''?'' \<or> hd t = CHR ''#'')"
proof -
  from assms(1) obtain a A' where A: "A = a # A'" by (cases A) auto
  have st: "strip (A @ rest) = A @ rstrip_chars isspace_chr rest"
    using assms(1,2,4) A rstrip_chars_append [of A isspace_chr rest]
    by (simp add: strip_def)
  have dw: "dropWhile c0_or_space (A @ rstrip_chars isspace_chr rest)
              = A @ rstrip_chars isspace_chr rest"
    using assms(3) A by simp
  have fa: "filter (\<lambda>c. \<not> unsafe_chr c) A = A" using assms(5) by simp
  let ?t = "filter (\<lambda>c. \<not> unsafe_chr c) (rstrip_chars isspace_chr rest)"
  have t: "?t = [] \<or> hd ?t = CHR ''?'' \<or> hd ?t = CHR ''#''"
  proof (cases rest)
    case Nil
    then show ?thesis by (simp add: rstrip_chars_def)
  next
    case (Cons c r0)
    with assms(6) have c: "c = CHR ''?'' \<or> c = CHR ''#''" by simp
    then have ns: "\<not> isspace_chr c" and nu: "\<not> unsafe_chr c"
      by (auto simp add: isspace_chr_def unsafe_chr_def code_def)
    from rstrip_chars_head [of isspace_chr c r0] ns Cons obtain r1
      where "rstrip_chars isspace_chr rest = c # r1" by auto
    with nu c show ?thesis by auto
  qed
  from st dw fa t show ?thesis by simp
qed

lemma match_ara_path_url:
  assumes "kind \<noteq> []" and "list_all isword_chr kind"
    and "d \<noteq> []" and "list_all isdecimal_chr d"
    and "suf = [] \<or> suf = ''.html''"
  shows "match_ara_path (CHR ''/'' # kind @ CHR ''/'' # d @ suf) = Some (kind, d)"
proof -
  have nw: "\<not> isword_chr CHR ''/''" using isword_chr_facts(1) by blast
  have w1: "takeWhile isword_chr (kind @ CHR ''/'' # d @ suf) = kind"
    using assms(2) nw by (intro takeWhile_stop) (auto simp add: list_all_iff)
  have w2: "dropWhile isword_chr (kind @ CHR ''/'' # d @ suf) = CHR ''/'' # d @ suf"
    using assms(2) nw by (intro dropWhile_stop) (auto simp add: list_all_iff)
  have nd: "\<not> isdecimal_chr CHR ''.''" using isdecimal_chr_facts(2) by blast
  have d1: "takeWhile isdecimal_chr (d @ suf) = d"
    using assms(4,5) nd by (auto simp add: list_all_iff)
  have d2: "dropWhile isdecimal_chr (d @ suf) = suf"
    using assms(4,5) nd by (auto simp add: list_all_iff)
  show ?thesis
    unfolding match_ara_path_def using assms(1,3,5)
    by (auto simp add: w1 w2 d1 d2 Let_def)
qed

lemma path_chars:
  assumes "list_all isword_chr kind" and "list_all isdecimal_chr d"
    and "suf = [] \<or> suf = ''.html''"
  shows "\<forall>c\<in>set (CHR ''/'' # kind @ CHR ''/'' # d @ suf).
           c \<noteq> CHR ''#'' \<and> c \<noteq> CHR ''?'' \<and> c \<noteq> CHR '';'' \<and> c \<noteq> CHR '':'' \<and> \<not> unsafe_chr c"
proof -
  have w: "c \<noteq> CHR ''#'' \<and> c \<noteq> CHR ''?'' \<and> c \<noteq> CHR '';'' \<and> c \<noteq> CHR '':'' \<and> \<not> unsafe_chr c"
    if "isword_chr c" for c
    using that by (auto simp add: isword_chr_def unsafe_chr_def Let_def code_def)
  have s: "c \<noteq> CHR ''#'' \<and> c \<noteq> CHR ''?'' \<and> c \<noteq> CHR '';'' \<and> c \<noteq> CHR '':'' \<and> \<not> unsafe_chr c"
    if "c \<in> set ''/.html''" for c
    using that by (auto simp add: unsafe_chr_def code_def)
  have "isword_chr c \<or> c \<in> set ''/.html''"
    if "c \<in> set (CHR ''/'' # kind @ CHR ''/'' # d @ suf)" for c
    using that assms by (auto simp add: list_all_iff isdecimal_chr_facts(1))
  with w s show ?thesis by blast
qed

lemma path_last:
  assumes "d \<noteq> []" and "list_all isdecimal_chr d" and "suf = [] \<or> suf = ''.html''"
  shows "\<not> isspace_chr (last (pre @ CHR ''/'' # d @ suf))"
proof -
  from assms(1) obtain ds x where d: "d = ds @ [x]" by (cases d rule: rev_cases) auto
  with assms(2) have "\<not> isspace_chr x" by (simp add: isdecimal_chr_facts(3))
  moreover have "\<not> isspace_chr CHR ''l''" by (simp add: isspace_chr_def code_def)
  ultimately show ?thesis using assms(3) d by auto
qed

lemma parse_same_origin_url:
  assumes sch: "sch \<noteq> []" "ascii_alpha_chr (hd sch)" "list_all scheme_chr sch"
    and nl: "nl \<noteq> []" "\<forall>c\<in>set nl. \<not> netloc_delim c \<and> \<not> unsafe_chr c"
      "(CHR ''['' \<in> set nl) = (CHR '']'' \<in> set nl)"
      "CHR ''['' \<in> set nl \<longrightarrow> bracketed_ok env nl"
    and cfg: "urlparse env (get_web_base env) = Inr c"
      "lower (sch @ ''://'' @ nl) = lower (origin c)"
    and kind: "kind \<noteq> []" "list_all isword_chr kind"
    and d: "d \<noteq> []" "list_all isdecimal_chr d"
    and suf: "suf = [] \<or> suf = ''.html''"
    and rest: "rest = [] \<or> hd rest = CHR ''?'' \<or> hd rest = CHR ''#''"
  shows "parse_ara_url env (sch @ ''://'' @ nl @ ''/'' @ kind @ ''/'' @ d @ suf @ rest) =
           (if within_digit_limit (int_max_str_digits env) d
            then Inr (kind, decimal_value d) else Inl (IntValueError d))"
proof -
  define P where "P = kind @ CHR ''/'' # d @ suf"
  define A where "A = sch @ CHR '':'' # CHR ''/'' # CHR ''/'' # nl @ CHR ''/'' # P"
  have url: "sch @ ''://'' @ nl @ ''/'' @ kind @ ''/'' @ d @ suf @ rest = A @ rest"
    by (simp add: A_def P_def)
  have Pc: "\<forall>c\<in>set (CHR ''/'' # P).
           c \<noteq> CHR ''#'' \<and> c \<noteq> CHR ''?'' \<and> c \<noteq> CHR '';'' \<and> c \<noteq> CHR '':'' \<and> \<not> unsafe_chr c"
    unfolding P_def using kind(2) d(2) suf by (rule path_chars)
  have A1: "A \<noteq> []" by (simp add: A_def)
  have hdA: "hd A = hd sch" using sch(1) by (simp add: A_def)
  have A2: "\<not> isspace_chr (hd A)" and A3: "\<not> c0_or_space (hd A)"
    using sch(2) hdA by (simp_all add: ascii_alpha_facts)
  have "last A = last ((sch @ CHR '':'' # CHR ''/'' # CHR ''/'' # nl @ CHR ''/'' # kind) @ CHR ''/'' # d @ suf)"
    by (simp add: A_def P_def)
  with path_last [OF d suf] have A4: "\<not> isspace_chr (last A)" by simp
  have lit: "\<not> unsafe_chr CHR '':''" "\<not> unsafe_chr CHR ''/''"
    by (simp_all add: unsafe_chr_def code_def)
  have A5: "\<forall>c\<in>set A. \<not> unsafe_chr c"
    using sch(3) nl(2) Pc lit by (auto simp add: A_def list_all_iff scheme_chr_facts(2))
  from clean_url [OF A1 A2 A3 A4 A5 rest] obtain t
    where st: "strip (A @ rest) = A @ rstrip_chars isspace_chr rest"
      and cl: "filter (\<lambda>c. \<not> unsafe_chr c) (dropWhile c0_or_space (strip (A @ rest))) = A @ t"
      and t: "t = [] \<or> hd t = CHR ''?'' \<or> hd t = CHR ''#''"
    by blast
  have cl': "filter (\<lambda>c. \<not> unsafe_chr c) (dropWhile c0_or_space (strip (A @ rest)))
               = sch @ CHR '':'' # CHR ''/'' # CHR ''/'' # nl @ CHR ''/'' # P @ t"
    using cl by (simp add: A_def)
  have nld: "\<forall>c\<in>set nl. \<not> netloc_delim c" using nl(2) by simp
  have Pq: "\<forall>c\<in>set P. c \<noteq> CHR ''#'' \<and> c \<noteq> CHR ''?''" using Pc by simp
  from urlsplit_url [OF cl' sch nld nl(3) nl(4) Pq t] obtain r
    where r: "urlsplit env (strip (A @ rest)) = Inr r" "scheme r = lower sch" "netloc r = nl"
      "path r = CHR ''/'' # P"
    by blast
  have semi: "CHR '';'' \<notin> set (path r)" using Pc r(4) by auto
  have up: "urlparse env (strip (A @ rest)) = Inr r"
    using r(1) semi by (simp add: urlparse_def)
  have ne: "scheme r \<noteq> []" "netloc r \<noteq> []" using r(2,3) sch(1) nl(1) by (simp_all add: lower_def)
  have "lower (origin r) = lower (sch @ ''://'' @ nl)"
    using r(2,3) by (simp add: origin_def lower_append lower_idem)
  with cfg(2) have lo: "lower (origin r) = lower (origin c)" by simp
  have val: "validate_url_origin env (strip (A @ rest)) = Inr ()"
    using up ne cfg(1) lo by (simp add: validate_url_origin_def)
  have "CHR '':'' \<in> set (strip (A @ rest))" using st by (simp add: A_def)
  then have nd: "\<not> isdigit (strip (A @ rest))"
    using isdigit_not_mem [of "strip (A @ rest)" "CHR '':''"] isdigit_chr_not_colon by blast
  have m: "match_ara_path (path r) = Some (kind, d)"
    using match_ara_path_url [OF kind d suf] r(4) by (simp add: P_def)
  from match_ara_path_Some(2) [OF m] have rs: "rstrip_slash (path r) = path r" .
  show ?thesis
    unfolding url
    using nd val up rs m d by (simp add: parse_ara_url_def Let_def py_int_def)
qed

lemma long_digits_facts:
  shows "long_digits \<noteq> []" and "list_all isdecimal_chr long_digits"
    and "length long_digits = 4301"
proof -
  show l: "length long_digits = 4301"
    by (simp only: long_digits_def length_replicate)
  then show "long_digits \<noteq> []" by auto
  have "isdecimal_chr CHR ''1''" by (simp add: isdecimal_chr_def code_def)
  then show "list_all isdecimal_chr long_digits"
    unfolding long_digits_def list_all_iff set_replicate_conv_if by simp
qed

text \<open>
  C6 (as the code has it). A same-origin URL that embeds a kind and the decimal form of
  an identifier, with or without the \<^verbatim>\<open>.html\<close> suffix and followed by nothing, a query
  string or a fragment, resolves to exactly that kind and identifier, provided the
  identifier is within the interpreter's digit limit for \<^verbatim>\<open>int\<close>. The kind is any
  non-empty run of word characters, the scheme and the network location any that
  \<^verbatim>\<open>urlparse\<close> reads back unchanged.
\<close>

theorem parse_ara_url_roundtrip:
  assumes "sch \<noteq> []" and "ascii_alpha_chr (hd sch)" and "list_all scheme_chr sch"
    and "nl \<noteq> []" and "\<forall>c\<in>set nl. \<not> netloc_delim c \<and> \<not> unsafe_chr c"
    and "(CHR ''['' \<in> set nl) = (CHR '']'' \<in> set nl)"
    and "CHR ''['' \<in> set nl \<longrightarrow> bracketed_ok env nl"
    and "urlparse env (get_web_base env) = Inr c"
    and "lower (sch @ ''://'' @ nl) = lower (origin c)"
    and "kind \<noteq> []" and "list_all isword_chr kind"
    and "suf = [] \<or> suf = ''.html''"
    and "rest = [] \<or> hd rest = CHR ''?'' \<or> hd rest = CHR ''#''"
    and "within_digit_limit (int_max_str_digits env) (py_str_nat n)"
  shows "parse_ara_url env (sch @ ''://'' @ nl @ ''/'' @ kind @ ''/'' @ py_str_nat n @ suf @ rest)
           = Inr (kind, int n)"
proof -
  have d: "py_str_nat n \<noteq> []" "list_all isdecimal_chr (py_str_nat n)"
    using py_str_nat_digits [of n] by simp_all
  from parse_same_origin_url [OF assms(1-11) d assms(12,13)] assms(14)
  show ?thesis by (simp add: decimal_value_str)
qed

theorem parse_ara_url_roundtrip_witness:
  "within_digit_limit (int_max_str_digits default_env) (py_str_nat 42)
   \<and> ''http'' @ ''://'' @ ''127.0.0.1:8000'' @ ''/'' @ ''playbooks'' @ ''/'' @ py_str_nat 42
       @ ''.html'' @ ''?status=failed#results''
     = ''http://127.0.0.1:8000/playbooks/42.html?status=failed#results''
   \<and> parse_ara_url default_env ''http://127.0.0.1:8000/playbooks/42.html?status=failed#results''
     = Inr (''playbooks'', 42)"
proof -
  let ?c = "\<lparr>scheme = ''http'', netloc = ''127.0.0.1:8000'', path = [], params = [], query = [],
            fragment = []\<rparr>"
  have s: "''http'' \<noteq> []" "ascii_alpha_chr (hd ''http'')" "list_all scheme_chr ''http''"
    by code_simp+
  have n: "''127.0.0.1:8000'' \<noteq> []"
    "\<forall>c\<in>set ''127.0.0.1:8000''. \<not> netloc_delim c \<and> \<not> unsafe_chr c"
    "(CHR ''['' \<in> set ''127.0.0.1:8000'') = (CHR '']'' \<in> set ''127.0.0.1:8000'')"
    "CHR ''['' \<in> set ''127.0.0.1:8000'' \<longrightarrow> bracketed_ok default_env ''127.0.0.1:8000''"
    by (simp_all add: netloc_delim_def unsafe_chr_def code_def)
  have c: "urlparse default_env (get_web_base default_env) = Inr ?c" by code_simp
  have l: "lower (''http'' @ ''://'' @ ''127.0.0.1:8000'') = lower (origin ?c)" by code_simp
  have k: "''playbooks'' \<noteq> []" "list_all isword_chr ''playbooks''" by code_simp+
  have su: "''.html'' = [] \<or> ''.html'' = ''.html''" by simp
  have r: "''?status=failed#results'' = [] \<or> hd ''?status=failed#results'' = CHR ''?''
           \<or> hd ''?status=failed#results'' = CHR ''#''" by simp
  have w: "within_digit_limit (int_max_str_digits default_env) (py_str_nat 42)" by code_simp
  have e: "py_str_nat 42 = ''42''" by code_simp
  from parse_ara_url_roundtrip [OF s n c l k su r w] w e show ?thesis by simp
qed

text \<open>
  The claim as written fails for an identifier of 4301 digits: \<^verbatim>\<open>int\<close> refuses it and
  the resolver raises ValueError instead of returning the pair.
\<close>

theorem roundtrip_digit_limit_counterexample:
  "parse_ara_url default_env (''http://127.0.0.1:8000/playbooks/'' @ long_digits)
     = Inl (IntValueError (long_digits))"
proof -
  let ?c = "\<lparr>scheme = ''http'', netloc = ''127.0.0.1:8000'', path = [], params = [], query = [],
            fragment = []\<rparr>"
  let ?d = "long_digits"
  have s: "''http'' \<noteq> []" "ascii_alpha_chr (hd ''http'')" "list_all scheme_chr ''http''"
    by code_simp+
  have n: "''127.0.0.1:8000'' \<noteq> []"
    "\<forall>c\<in>set ''127.0.0.1:8000''. \<not> netloc_delim c \<and> \<not> unsafe_chr c"
    "(CHR ''['' \<in> set ''127.0.0.1:8000'') = (CHR '']'' \<in> set ''127.0.0.1:8000'')"
    "CHR ''['' \<in> set ''127.0.0.1:8000'' \<longrightarrow> bracketed_ok default_env ''127.0.0.1:8000''"
    by (simp_all add: netloc_delim_def unsafe_chr_def code_def)
  have c: "urlparse default_env (get_web_base default_env) = Inr ?c" by code_simp
  have l: "lower (''http'' @ ''://'' @ ''127.0.0.1:8000'') = lower (origin ?c)" by code_simp
  have k: "''playbooks'' \<noteq> []" "list_all isword_chr ''playbooks''" by code_simp+
  have d: "?d \<noteq> []" "list_all isdecimal_chr ?d"
    by (rule long_digits_facts)+
  have su: "([]::string) = [] \<or> ([]::string) = ''.html''" by simp
  have r: "([]::string) = [] \<or> hd ([]::string) = CHR ''?'' \<or> hd ([]::string) = CHR ''#''" by simp
  have w: "\<not> within_digit_limit (int_max_str_digits default_env) ?d"
    by (simp add: within_digit_limit_def default_env_def long_digits_facts(3))
  from parse_same_origin_url [OF s n c l k d su r] w show ?thesis by simp
qed

lemma urlparse_bare_path:
  assumes "kind \<noteq> []" and "list_all isword_chr kind" and "d \<noteq> []" and "list_all isdecimal_chr d"
  shows "strip (CHR ''/'' # kind @ CHR ''/'' # d) = CHR ''/'' # kind @ CHR ''/'' # d"
    and "urlparse env (CHR ''/'' # kind @ CHR ''/'' # d)
           = Inr \<lparr>scheme = [], netloc = [], path = CHR ''/'' # kind @ CHR ''/'' # d, params = [],
                  query = [], fragment = []\<rparr>"
proof -
  let ?u = "CHR ''/'' # kind @ CHR ''/'' # d"
  have su: "([]::string) = [] \<or> ([]::string) = ''.html''" by simp
  from path_chars [OF assms(2,4) su]
  have uc: "\<forall>c\<in>set ?u. c \<noteq> CHR ''#'' \<and> c \<noteq> CHR ''?'' \<and> c \<noteq> CHR '';'' \<and> c \<noteq> CHR '':''
              \<and> \<not> unsafe_chr c" by simp
  have sl: "\<not> isspace_chr CHR ''/''" "\<not> c0_or_space CHR ''/''"
    by (simp_all add: isspace_chr_def c0_or_space_def code_def)
  from path_last [OF assms(3,4) su, of "CHR ''/'' # kind"]
  have la: "\<not> isspace_chr (last ?u)" by simp
  from rstrip_chars_append [of ?u isspace_chr "[]"] la
  have "rstrip_chars isspace_chr ?u = ?u" by (simp add: rstrip_chars_def)
  with sl(1) show st: "strip ?u = ?u" by (simp add: strip_def)
  from assms(1,2) obtain k ks where kind: "kind = k # ks" and k: "isword_chr k"
    by (cases kind) auto
  from k have k2: "k \<noteq> CHR ''/''" by (rule isword_chr_facts(1))
  have cl: "filter (\<lambda>c. \<not> unsafe_chr c) (dropWhile c0_or_space ?u) = ?u"
    using sl(2) uc by simp
  have nc: "CHR '':'' \<notin> set ?u" using uc by auto
  have sp: "split_scheme ?u = ([], ?u)"
    using nc by (simp add: split_scheme_def Let_def)
  have t2: "take 2 ?u \<noteq> ''//''" using kind k2 by simp
  have h: "CHR ''#'' \<notin> set ?u" "CHR ''?'' \<notin> set ?u" "CHR '';'' \<notin> set ?u" using uc by auto
  have "urlsplit env ?u = Inr \<lparr>scheme = [], netloc = [], path = ?u, params = [],
                  query = [], fragment = []\<rparr>"
    unfolding urlsplit_def cl Let_def sp split_conv using t2 h by simp
  with h(3) show "urlparse env ?u = Inr \<lparr>scheme = [], netloc = [], path = ?u, params = [],
                  query = [], fragment = []\<rparr>"
    by (simp add: urlparse_def)
qed

text \<open>
  The claim C10 as written fails for a bare path whose identifier has 4301 digits: the
  path matches the pattern, and the resolver raises ValueError.
\<close>

theorem bare_path_digit_limit_counterexample:
  "urlparse default_env (strip (''/playbooks/'' @ long_digits))
     = Inr \<lparr>scheme = [], netloc = [], path = ''/playbooks/'' @ long_digits,
            params = [], query = [], fragment = []\<rparr>
   \<and> match_ara_path (''/playbooks/'' @ long_digits)
     = Some (''playbooks'', long_digits)
   \<and> parse_ara_url default_env (''/playbooks/'' @ long_digits)
     = Inl (IntValueError (long_digits))"
proof -
  let ?d = "long_digits"
  let ?u = "CHR ''/'' # ''playbooks'' @ CHR ''/'' # ?d"
  let ?p = "\<lparr>scheme = [], netloc = [], path = ?u, params = [], query = [], fragment = []\<rparr>"
  have eq: "''/playbooks/'' @ ?d = ?u" by simp
  have k: "''playbooks'' \<noteq> []" "list_all isword_chr ''playbooks''" by code_simp+
  have d: "?d \<noteq> []" "list_all isdecimal_chr ?d"
    by (rule long_digits_facts)+
  have bp: "strip ?u = ?u" "urlparse default_env ?u = Inr ?p"
    using urlparse_bare_path [OF k d] by simp_all
  have su: "([]::string) = [] \<or> ([]::string) = ''.html''" by simp
  from match_ara_path_url [OF k d su] have m: "match_ara_path ?u = Some (''playbooks'', ?d)" by simp
  from match_ara_path_Some(2) [OF m] have rs: "rstrip_slash ?u = ?u" .
  have "CHR ''/'' \<in> set ?u" by simp
  then have nd: "\<not> isdigit ?u"
    using isdigit_not_mem [of ?u "CHR ''/''"] isdigit_chr_not_slash by blast
  have v: "validate_url_origin default_env ?u = Inr ()"
    using bp(2) by (simp add: validate_url_origin_def)
  have w: "\<not> within_digit_limit (int_max_str_digits default_env) ?d"
    by (simp add: within_digit_limit_def default_env_def long_digits_facts(3))
  have "parse_ara_url default_env ?u = Inl (IntValueError ?d)"
    unfolding parse_ara_url_def bp(1) Let_def
    using nd v bp(2) rs m w by (simp add: py_int_def)
  with bp m show ?thesis unfolding eq by simp
qed

section \<open>Properties of the batch fetch\<close>

lemma fetch_each_log: "snd (fetch_each a r pks log) = log @ map (Get r) pks"
  by (induction pks arbitrary: log) (simp_all add: ara_get_def split_beta)

lemma fetch_each_results:
  "fst (fetch_each a r pks log) =
     map (\<lambda>pk. case api_get a r pk of Inl e \<Rightarrow> Inl e | Inr data \<Rightarrow> Inr (pk, data)) pks"
  by (induction pks arbitrary: log) (simp_all add: ara_get_def split_beta)

lemma collect_lookup:
  "collect (map (\<lambda>pk. case g pk of Inl e \<Rightarrow> Inl e | Inr data \<Rightarrow> Inr (pk, data)) pks) out k =
     (if k \<in> set pks then (case g k of Inl e \<Rightarrow> out k | Inr data \<Rightarrow> Some data) else out k)"
proof (induction pks arbitrary: out)
  case Nil
  then show ?case by simp
next
  case (Cons pk pks)
  then show ?case by (cases "g pk") (auto split: sum.splits)
qed

lemma batch_get_lookup:
  "fst (batch_get a r pks log) k =
     (if k \<in> set pks then (case api_get a r k of Inl e \<Rightarrow> None | Inr data \<Rightarrow> Some data) else None)"
proof (cases "pks = []")
  case True
  then show ?thesis by (simp add: batch_get_def)
next
  case False
  have "fst (batch_get a r pks log) = collect (fst (fetch_each a r pks log)) Map.empty"
    using False by (simp add: batch_get_def split_beta)
  then show ?thesis
    by (simp add: fetch_each_results collect_lookup)
qed

lemma batch_get_log: "snd (batch_get a r pks log) = log @ map (Get r) pks"
  by (cases "pks = []") (simp_all add: batch_get_def fetch_each_log split_beta)

text \<open>
  C7. Whatever members of a batch fail, \<^verbatim>\<open>batch_get\<close> returns a mapping whose keys are
  exactly the requested ids whose fetch succeeded, each with the record fetched; a
  failing member removes its own key and nothing else. With ids 1, 2, 3 and a failing
  fetch of 2, the keys are 1 and 3.
\<close>

theorem batch_get_partial_success:
  "dom (fst (batch_get a r pks log)) = {pk. pk \<in> set pks \<and> (\<exists>data. api_get a r pk = Inr data)}
   \<and> (\<forall>pk data. (fst (batch_get a r pks log) pk = Some data)
                  = (pk \<in> set pks \<and> api_get a r pk = Inr data))"
proof -
  have "(fst (batch_get a r pks log) pk = Some data) = (pk \<in> set pks \<and> api_get a r pk = Inr data)"
    for pk data
    by (cases "api_get a r pk") (simp_all add: batch_get_lookup)
  then show ?thesis by (auto simp add: dom_def)
qed

theorem batch_get_partial_success_witness:
  "dom (fst (batch_get example_api ''results'' [1, 2, 3] [])) = {1, 3}"
proof -
  have "{pk. pk \<in> set [1, 2, 3] \<and> (\<exists>data. api_get example_api ''results'' pk = Inr data)} = {1, 3::int}"
    by (auto simp add: example_api_def)
  with batch_get_partial_success [of example_api "''results''" "[1, 2, 3]" "[]"]
  show ?thesis by simp
qed

text \<open>
  C2 (as the code has it). \<^verbatim>\<open>batch_get\<close> issues one fetch per element of the list it
  is given, in order and duplicates included; the fetches cover exactly the unique ids,
  and the mapping returned is the one the deduplicated list gives.
\<close>

theorem batch_get_fetches:
  "snd (batch_get a r pks log) = log @ map (Get r) pks
   \<and> set (map (Get r) pks) = Get r ` set (remdups pks)
   \<and> fst (batch_get a r pks log) = fst (batch_get a r (remdups pks) log)"
  by (auto simp add: batch_get_log batch_get_lookup fun_eq_iff)

text \<open>
  Duplicate ids are not coalesced: the ids 1, 1, 2 cost three fetches, two of them for
  the same record.
\<close>

theorem batch_get_duplicates_counterexample:
  "snd (batch_get example_api ''results'' [1, 1, 2] [])
     = [Get ''results'' 1, Get ''results'' 1, Get ''results'' 2]"
  by (simp add: batch_get_log)

section \<open>Properties of the failure reports\<close>

text \<open>
  C1 (the code at a failing input). The playbook has two failed results and the full
  record of the second cannot be fetched. \<^verbatim>\<open>handle_troubleshoot_playbook\<close> indexes the
  batch result with \<^verbatim>\<open>full_results[result_id]\<close>: the handler ends with KeyError and
  produces no report.
\<close>

theorem troubleshoot_playbook_missing_result:
  "fst (handle_troubleshoot_playbook example_api 7 False []) = Inl (KeyError 2)"
  by code_simp

lemma host_entries_details:
  assumes "\<And>r. r \<in> set rs \<Longrightarrow>
             full (item_id r)
               = (case api_get a ''results'' (item_id r) of Inl e \<Rightarrow> None | Inr d \<Rightarrow> Some d)"
  shows "host_entries full i rs = details_from a i (map item_id rs)"
  using assms
proof (induction rs arbitrary: i)
  case Nil
  show ?case by simp
next
  case (Cons r rs)
  have tl: "host_entries full (Suc i) rs = details_from a (Suc i) (map item_id rs)"
    using Cons by simp
  have hd: "full (item_id r)
              = (case api_get a ''results'' (item_id r) of Inl e \<Rightarrow> None | Inr d \<Rightarrow> Some d)"
    using Cons.prems by simp
  show ?case
    by (cases "api_get a ''results'' (item_id r)")
       (simp_all add: hd tl detail_of_def Let_def split: json.splits sum.splits)
qed

lemma host_entries_batch:
  "host_entries (fst (batch_get a ''results'' (map item_id rs) log)) i rs
     = details_from a i (map item_id rs)"
  by (rule host_entries_details) (simp add: batch_get_lookup)

lemma troubleshoot_host_requests:
  assumes "api_get a ''hosts'' pk = Inr host"
    and "format_host_facts format_facts (dict_get host ''facts'' (JDict [])) = Inr facts_lines"
  shows "\<exists>rest. snd (handle_troubleshoot_host format_facts second_completes_first a pk log0)
           = log0 @ [Get ''hosts'' pk,
                     ListReq ''results'' (host_results_query pk ''failed''),
                     ListReq ''results'' (host_results_query pk ''unreachable'')] @ rest"
  using assms
  by (simp add: handle_troubleshoot_host_def ara_get_def ara_list_def host_results_query_def
        split_beta Let_def batch_get_log split: sum.splits)

lemma troubleshoot_host_run:
  assumes "api_get a ''hosts'' pk = Inr host"
    and "format_host_facts format_facts (dict_get host ''facts'' (JDict [])) = Inr facts_lines"
    and "api_list a ''results'' (host_results_query pk ''failed'') = Inr f"
    and "api_list a ''results'' (host_results_query pk ''unreachable'') = Inr u"
    and "results f @ results u \<noteq> []"
  shows "handle_troubleshoot_host format_facts second_completes_first a pk log0 =
           (case details_from a 1 (map item_id (take 10 (results f @ results u))) of
              Inl e \<Rightarrow> Inl e
            | Inr entries \<Rightarrow>
                Inr (HostFailures (host_header_of host facts_lines)
                       (length (results f @ results u)) entries
                       (if length (results f @ results u) > 10
                        then Some (length (results f @ results u) - 10) else None)),
            log0 @ [Get ''hosts'' pk,
                    ListReq ''results'' (host_results_query pk ''failed''),
                    ListReq ''results'' (host_results_query pk ''unreachable'')]
                 @ map (Get ''results'') (map item_id (take 10 (results f @ results u))))"
proof -
  let ?all = "results f @ results u"
  let ?log3 = "log0 @ [Get ''hosts'' pk,
                       ListReq ''results'' (host_results_query pk ''failed''),
                       ListReq ''results'' (host_results_query pk ''unreachable'')]"
  let ?b = "batch_get a ''results'' (map item_id (take 10 ?all)) ?log3"
  have f: "api_list a ''results''
             [(''host'', JInt pk), (''status'', JStr ''failed''), (''limit'', JInt 50)] = Inr f"
    and u: "api_list a ''results''
             [(''host'', JInt pk), (''status'', JStr ''unreachable''), (''limit'', JInt 50)] = Inr u"
    using assms(3,4) by (simp_all add: host_results_query_def)
  have "handle_troubleshoot_host format_facts second_completes_first a pk log0 =
      (case host_entries (fst ?b) 1 (take 10 ?all) of
         Inl e \<Rightarrow> Inl e
       | Inr entries \<Rightarrow>
           Inr (HostFailures (host_header_of host facts_lines) (length ?all) entries
                  (if length ?all > 10 then Some (length ?all - 10) else None)),
       snd ?b)"
    using assms(1,2,5) f u
    by (simp add: handle_troubleshoot_host_def ara_get_def ara_list_def gather_def
          host_results_query_def host_header_of_def split_beta Let_def cong: sum.case_cong)
  then show ?thesis
    by (simp only: host_entries_batch batch_get_log append_assoc)
qed

lemma troubleshoot_host_none:
  assumes "api_get a ''hosts'' pk = Inr host"
    and "format_host_facts format_facts (dict_get host ''facts'' (JDict [])) = Inr facts_lines"
    and "api_list a ''results'' (host_results_query pk ''failed'') = Inr f"
    and "api_list a ''results'' (host_results_query pk ''unreachable'') = Inr u"
    and "results f @ results u = []"
  shows "handle_troubleshoot_host format_facts second_completes_first a pk log0 =
           (Inr (NoFailuresOrUnreachable (host_header_of host facts_lines)),
            log0 @ [Get ''hosts'' pk,
                    ListReq ''results'' (host_results_query pk ''failed''),
                    ListReq ''results'' (host_results_query pk ''unreachable'')])"
  using assms
  by (simp add: handle_troubleshoot_host_def ara_get_def ara_list_def gather_def
        host_results_query_def host_header_of_def split_beta Let_def)

text \<open>
  On the same server \<^verbatim>\<open>handle_troubleshoot_host\<close>, which reads the batch result with
  \<^verbatim>\<open>full_results.get\<close>, keeps the entry and marks it "could not fetch details".
\<close>

lemma troubleshoot_host_missing_result:
  "fst (handle_troubleshoot_host unreached_format_facts False example_api 7 []) =
     Inr (HostFailures
            \<lparr>hh_name = JStr ''Unknown'', hh_failed = JInt 0, hh_unreachable = JInt 0,
             hh_facts = [''  Facts: Not available'']\<rparr>
            2
            [Details 1 1 ''failed'' (JStr ''Unknown'') (JStr ''unknown'') None,
             CouldNotFetchDetails 2 2] None)"
  by code_simp

text \<open>
  C4. Once the host record is fetched and its facts are formatted,
  \<^verbatim>\<open>handle_troubleshoot_host\<close> issues the two list calls for the host, one with
  \<^verbatim>\<open>status=failed\<close> and one with \<^verbatim>\<open>status=unreachable\<close>, each with \<^verbatim>\<open>limit=50\<close>: both are
  issued whatever either of them answers and in whichever order they complete, and neither
  is built from the other's answer. When both answer and the concatenation of their
  results is not empty, the handler fetches the first ten results of the concatenation
  and gives each of them one entry in order, read from the fetched record (or "could not
  fetch details"); unless the formatting of an entry raises, the report counts the length
  of the whole concatenation, and the number of entries left out when there are more than
  ten. The count is that of the results the two calls returned: the \<^verbatim>\<open>count\<close> field of
  their answers is not read. When the concatenation is empty the report says that no
  failure was found, and no result is fetched.
\<close>

theorem troubleshoot_host_counts:
  assumes "api_get a ''hosts'' pk = Inr host"
    and "format_host_facts format_facts (dict_get host ''facts'' (JDict [])) = Inr facts_lines"
  shows "(\<exists>rest. snd (handle_troubleshoot_host format_facts second_completes_first a pk log0)
            = log0 @ [Get ''hosts'' pk,
                      ListReq ''results'' (host_results_query pk ''failed''),
                      ListReq ''results'' (host_results_query pk ''unreachable'')] @ rest)
       \<and> (\<forall>f u. api_list a ''results'' (host_results_query pk ''failed'') = Inr f
             \<longrightarrow> api_list a ''results'' (host_results_query pk ''unreachable'') = Inr u
             \<longrightarrow> results f @ results u \<noteq> []
             \<longrightarrow> handle_troubleshoot_host format_facts second_completes_first a pk log0 =
                   (case details_from a 1 (map item_id (take 10 (results f @ results u))) of
                      Inl e \<Rightarrow> Inl e
                    | Inr entries \<Rightarrow>
                        Inr (HostFailures (host_header_of host facts_lines)
                               (length (results f @ results u)) entries
                               (if length (results f @ results u) > 10
                                then Some (length (results f @ results u) - 10) else None)),
                    log0 @ [Get ''hosts'' pk,
                            ListReq ''results'' (host_results_query pk ''failed''),
                            ListReq ''results'' (host_results_query pk ''unreachable'')]
                         @ map (Get ''results'')
                             (map item_id (take 10 (results f @ results u)))))
       \<and> (\<forall>f u. api_list a ''results'' (host_results_query pk ''failed'') = Inr f
             \<longrightarrow> api_list a ''results'' (host_results_query pk ''unreachable'') = Inr u
             \<longrightarrow> results f @ results u = []
             \<longrightarrow> handle_troubleshoot_host format_facts second_completes_first a pk log0 =
                   (Inr (NoFailuresOrUnreachable (host_header_of host facts_lines)),
                    log0 @ [Get ''hosts'' pk,
                            ListReq ''results'' (host_results_query pk ''failed''),
                            ListReq ''results'' (host_results_query pk ''unreachable'')]))"
  using troubleshoot_host_requests [OF assms] troubleshoot_host_run [OF assms]
    troubleshoot_host_none [OF assms]
  by blast

theorem troubleshoot_host_counts_witness:
  "handle_troubleshoot_host unreached_format_facts False busy_host_api 7 [] =
     (Inr (HostFailures
             \<lparr>hh_name = JStr ''web1'', hh_failed = JInt 12, hh_unreachable = JInt 2,
              hh_facts = [''  Facts: Not available'']\<rparr>
             14
             [Details 1 1 ''failed'' (JStr ''Unknown'') (JStr ''unknown'') None,
              Details 2 2 ''failed'' (JStr ''ping'') (JStr ''ping'') (Some (JStr ''timed out'')),
              CouldNotFetchDetails 3 3,
              Details 4 4 ''failed'' (JStr ''Unknown'') (JStr ''unknown'') None,
              Details 5 5 ''failed'' (JStr ''Unknown'') (JStr ''unknown'') None,
              Details 6 6 ''failed'' (JStr ''Unknown'') (JStr ''unknown'') None,
              Details 7 7 ''failed'' (JStr ''Unknown'') (JStr ''unknown'') None,
              Details 8 8 ''failed'' (JStr ''Unknown'') (JStr ''unknown'') None,
              Details 9 9 ''failed'' (JStr ''Unknown'') (JStr ''unknown'') None,
              Details 10 10 ''failed'' (JStr ''Unknown'') (JStr ''unknown'') None]
             (Some 4)),
      [Get ''hosts'' 7,
       ListReq ''results'' [(''host'', JInt 7), (''status'', JStr ''failed''), (''limit'', JInt 50)],
       ListReq ''results'' [(''host'', JInt 7), (''status'', JStr ''unreachable''), (''limit'', JInt 50)],
       Get ''results'' 1, Get ''results'' 2, Get ''results'' 3, Get ''results'' 4,
       Get ''results'' 5, Get ''results'' 6, Get ''results'' 7, Get ''results'' 8,
       Get ''results'' 9, Get ''results'' 10])
   \<and> handle_troubleshoot_host unreached_format_facts True quiet_host_api 7 [] =
     (Inr (NoFailuresOrUnreachable
             \<lparr>hh_name = JStr ''web2'', hh_failed = JInt 0, hh_unreachable = JInt 0,
              hh_facts = [''  Facts: Not available'']\<rparr>),
      [Get ''hosts'' 7,
       ListReq ''results'' [(''host'', JInt 7), (''status'', JStr ''failed''), (''limit'', JInt 50)],
       ListReq ''results'' [(''host'', JInt 7), (''status'', JStr ''unreachable''), (''limit'', JInt 50)]])"
proof -
  let ?host = "[(''id'', JInt 7), (''name'', JStr ''web1''), (''failed'', JInt 12),
                (''unreachable'', JInt 2)]"
  let ?f = "\<lparr>count = 12, results = map (\<lambda>i. \<lparr>item_id = i, item_task = JNone\<rparr>)
                                [1, 2, 3, 4, 5, 6, 7, 8, 9, 10, 11, 12]\<rparr>"
  let ?u = "\<lparr>count = 2, results = map (\<lambda>i. \<lparr>item_id = i, item_task = JNone\<rparr>) [13, 14]\<rparr>"
  have h: "api_get busy_host_api ''hosts'' 7 = Inr ?host"
    by (simp add: busy_host_api_def)
  have ff: "format_host_facts unreached_format_facts (dict_get ?host ''facts'' (JDict []))
              = Inr [''  Facts: Not available'']"
    by (simp add: format_host_facts_def dict_get_def)
  have f: "api_list busy_host_api ''results'' (host_results_query 7 ''failed'') = Inr ?f"
    by (simp add: busy_host_api_def host_results_query_def)
  have u: "api_list busy_host_api ''results'' (host_results_query 7 ''unreachable'') = Inr ?u"
    by (simp add: busy_host_api_def host_results_query_def)
  have ne: "results ?f @ results ?u \<noteq> []" by simp
  have d: "details_from busy_host_api 1 (map item_id (take 10 (results ?f @ results ?u)))
             = Inr [Details 1 1 ''failed'' (JStr ''Unknown'') (JStr ''unknown'') None,
                    Details 2 2 ''failed'' (JStr ''ping'') (JStr ''ping'') (Some (JStr ''timed out'')),
                    CouldNotFetchDetails 3 3,
                    Details 4 4 ''failed'' (JStr ''Unknown'') (JStr ''unknown'') None,
                    Details 5 5 ''failed'' (JStr ''Unknown'') (JStr ''unknown'') None,
                    Details 6 6 ''failed'' (JStr ''Unknown'') (JStr ''unknown'') None,
                    Details 7 7 ''failed'' (JStr ''Unknown'') (JStr ''unknown'') None,
                    Details 8 8 ''failed'' (JStr ''Unknown'') (JStr ''unknown'') None,
                    Details 9 9 ''failed'' (JStr ''Unknown'') (JStr ''unknown'') None,
                    Details 10 10 ''failed'' (JStr ''Unknown'') (JStr ''unknown'') None]"
    by code_simp
  have hd: "host_header_of ?host [''  Facts: Not available'']
              = \<lparr>hh_name = JStr ''web1'', hh_failed = JInt 12, hh_unreachable = JInt 2,
                 hh_facts = [''  Facts: Not available'']\<rparr>"
    by (simp add: host_header_of_def dict_get_def)
  from troubleshoot_host_counts [OF h ff, of False "[]"] f u ne
  have "handle_troubleshoot_host unreached_format_facts False busy_host_api 7 [] =
          (case details_from busy_host_api 1 (map item_id (take 10 (results ?f @ results ?u))) of
             Inl e \<Rightarrow> Inl e
           | Inr entries \<Rightarrow>
               Inr (HostFailures (host_header_of ?host [''  Facts: Not available''])
                      (length (results ?f @ results ?u)) entries
                      (if length (results ?f @ results ?u) > 10
                       then Some (length (results ?f @ results ?u) - 10) else None)),
           [] @ [Get ''hosts'' 7,
                 ListReq ''results'' (host_results_query 7 ''failed''),
                 ListReq ''results'' (host_results_query 7 ''unreachable'')]
              @ map (Get ''results'') (map item_id (take 10 (results ?f @ results ?u))))"
    by blast
  then have busy: "handle_troubleshoot_host unreached_format_facts False busy_host_api 7 [] =
     (Inr (HostFailures
             \<lparr>hh_name = JStr ''web1'', hh_failed = JInt 12, hh_unreachable = JInt 2,
              hh_facts = [''  Facts: Not available'']\<rparr>
             14
             [Details 1 1 ''failed'' (JStr ''Unknown'') (JStr ''unknown'') None,
              Details 2 2 ''failed'' (JStr ''ping'') (JStr ''ping'') (Some (JStr ''timed out'')),
              CouldNotFetchDetails 3 3,
              Details 4 4 ''failed'' (JStr ''Unknown'') (JStr ''unknown'') None,
              Details 5 5 ''failed'' (JStr ''Unknown'') (JStr ''unknown'') None,
              Details 6 6 ''failed'' (JStr ''Unknown'') (JStr ''unknown'') None,
              Details 7 7 ''failed'' (JStr ''Unknown'') (JStr ''unknown'') None,
              Details 8 8 ''failed'' (JStr ''Unknown'') (JStr ''unknown'') None,
              Details 9 9 ''failed'' (JStr ''Unknown'') (JStr ''unknown'') None,
              Details 10 10 ''failed'' (JStr ''Unknown'') (JStr ''unknown'') None]
             (Some 4)),
      [Get ''hosts'' 7,
       ListReq ''results'' [(''host'', JInt 7), (''status'', JStr ''failed''), (''limit'', JInt 50)],
       ListReq ''results'' [(''host'', JInt 7), (''status'', JStr ''unreachable''), (''limit'', JInt 50)],
       Get ''results'' 1, Get ''results'' 2, Get ''results'' 3, Get ''results'' 4,
       Get ''results'' 5, Get ''results'' 6, Get ''results'' 7, Get ''results'' 8,
       Get ''results'' 9, Get ''results'' 10])"
    unfolding d hd by (simp add: host_results_query_def eval_nat_numeral)
  let ?qhost = "[(''id'', JInt 7), (''name'', JStr ''web2'')]"
  let ?e = "\<lparr>count = 0, results = []\<rparr>"
  have qh: "api_get quiet_host_api ''hosts'' 7 = Inr ?qhost"
    by (simp add: quiet_host_api_def)
  have qff: "format_host_facts unreached_format_facts (dict_get ?qhost ''facts'' (JDict []))
               = Inr [''  Facts: Not available'']"
    by (simp add: format_host_facts_def dict_get_def)
  have qf: "api_list quiet_host_api ''results'' (host_results_query 7 ''failed'') = Inr ?e"
    and qu: "api_list quiet_host_api ''results'' (host_results_query 7 ''unreachable'') = Inr ?e"
    by (simp_all add: quiet_host_api_def)
  have qe: "results ?e @ results ?e = []" by simp
  have qhd: "host_header_of ?qhost [''  Facts: Not available'']
               = \<lparr>hh_name = JStr ''web2'', hh_failed = JInt 0, hh_unreachable = JInt 0,
                  hh_facts = [''  Facts: Not available'']\<rparr>"
    by (simp add: host_header_of_def dict_get_def)
  from troubleshoot_host_counts [OF qh qff, of True "[]"] qf qu qe
  have "handle_troubleshoot_host unreached_format_facts True quiet_host_api 7 [] =
          (Inr (NoFailuresOrUnreachable (host_header_of ?qhost [''  Facts: Not available''])),
           [] @ [Get ''hosts'' 7,
                 ListReq ''results'' (host_results_query 7 ''failed''),
                 ListReq ''results'' (host_results_query 7 ''unreachable'')])"
    by blast
  then have quiet: "handle_troubleshoot_host unreached_format_facts True quiet_host_api 7 [] =
     (Inr (NoFailuresOrUnreachable
             \<lparr>hh_name = JStr ''web2'', hh_failed = JInt 0, hh_unreachable = JInt 0,
              hh_facts = [''  Facts: Not available'']\<rparr>),
      [Get ''hosts'' 7,
       ListReq ''results'' [(''host'', JInt 7), (''status'', JStr ''failed''), (''limit'', JInt 50)],
       ListReq ''results'' [(''host'', JInt 7), (''status'', JStr ''unreachable''), (''limit'', JInt 50)]])"
    unfolding qhd by (simp add: host_results_query_def)
  from busy quiet show ?thesis by (rule conjI)
qed

text \<open>
  C4 (counterexample). The host has 75 failed results. The list call, limited to 50,
  returns 50 of them and the total 75 in \<^verbatim>\<open>count\<close>; the report says "Found 50
  failure(s)" and "... and 40 more".
\<close>

theorem troubleshoot_host_total_counterexample:
  "server_total (api_list truncated_api ''results'' (host_results_query 7 ''failed'')) = Some 75
   \<and> server_total (api_list truncated_api ''results'' (host_results_query 7 ''unreachable''))
       = Some 0
   \<and> found_and_more (fst (handle_troubleshoot_host unreached_format_facts False truncated_api 7 []))
       = Some (50, Some 40)"
  by code_simp

section \<open>Properties of the time by module\<close>









text \<open>
  On the example, results 1 and 2 are the same task on the same host: only result 1 is
  displayed, and both count under their action. With \<^verbatim>\<open>top_n = 1\<close> result 3 is not
  displayed and still counts under its action.
\<close>

lemma slowest_tasks_duplicate_pair:
  "map_sum id (map_option (\<lambda>st. (map se_result_id (slowest st), task_times st (JStr ''shell''))))
     (fst (slowest_tasks seconds_ops perf_api 7 10 []))
   = Inr (Some ([1, 3], Some \<lparr>calls = 2, total = 5\<rparr>))"
  by code_simp

lemma slowest_tasks_display_cap:
  "map_sum id (map_option (\<lambda>st. (map se_result_id (slowest st), task_times st (JStr ''copy''))))
     (fst (slowest_tasks seconds_ops perf_api 7 1 []))
   = Inr (Some ([1], Some \<lparr>calls = 1, total = 1\<rparr>))"
  by code_simp

end
